theory Spec2Isabelle
  imports Main "HOL-Library.Word" "HOL-Library.Signed_Division"
begin

section \<open>Values of the Go runtime and library\<close>

text \<open>
  A Go \<^verbatim>\<open>string\<close> and a \<^verbatim>\<open>[]byte\<close> are sequences of bytes; both are modelled
  as \<^typ>\<open>string\<close>, whose characters are 8-bit. An \<^verbatim>\<open>int64\<close> is a 64-bit word read
  with \<^const>\<open>sint\<close>. An \<^verbatim>\<open>error\<close> value is either \<^verbatim>\<open>nil\<close> (\<open>None\<close> of
  \<open>error option\<close>), the sentinel \<^verbatim>\<open>io.EOF\<close>, or an error carrying its message.
\<close>

type_synonym int64 = "64 word"

datatype error = EOF | Errorf string

fun Error :: "error \<Rightarrow> string" where
  "Error EOF = ''EOF''"
| "Error (Errorf msg) = msg"

definition Wrapf :: "error \<Rightarrow> string \<Rightarrow> error" where
  \<comment> \<open>\<^verbatim>\<open>errors.Wrapf(err, msg)\<close>: the message is \<^verbatim>\<open>msg + ": " + err.Error()\<close>\<close>
  "Wrapf e msg = Errorf (msg @ '': '' @ Error e)"

subsection \<open>Decimal formatting and parsing (\<^verbatim>\<open>strconv\<close>)\<close>

definition digitChar :: "nat \<Rightarrow> char" where
  \<comment> \<open>the digit \<open>d < 10\<close>\<close>
  "digitChar d = ''0123456789'' ! d"

fun FormatNat :: "nat \<Rightarrow> string" where
  "FormatNat n = (if n < 10 then [digitChar n] else FormatNat (n div 10) @ [digitChar (n mod 10)])"

declare FormatNat.simps [simp del]

definition FormatInt :: "int \<Rightarrow> string" where
  \<comment> \<open>\<^verbatim>\<open>strconv.FormatInt(i, 10)\<close>, also the rendering of \<^verbatim>\<open>%d\<close>\<close>
  "FormatInt i = (if i < 0 then CHR ''-'' # FormatNat (nat (- i)) else FormatNat (nat i))"

definition isDigit :: "char \<Rightarrow> bool" where
  "isDigit c = (48 \<le> (of_char c :: nat) \<and> (of_char c :: nat) \<le> 57)"

definition digitVal :: "char \<Rightarrow> nat" where
  "digitVal c = of_char c - 48"

definition hexDigit :: "nat \<Rightarrow> char" where
  \<comment> \<open>the hexadecimal digit \<open>d < 16\<close>\<close>
  "hexDigit d = ''0123456789abcdef'' ! d"

definition quoteByte :: "char \<Rightarrow> string" where
  \<comment> \<open>the escape of one byte in \<^verbatim>\<open>strconv.Quote\<close>: the quote and the backslash get a
      backslash, printable ASCII stays, control bytes get their letter or \<^verbatim>\<open>\xhh\<close>.
      A byte from 0x80 on stays as it is: that is what the library does with printable
      non-ASCII text in UTF-8, the only such text considered here.\<close>
  "quoteByte c =
     (let n = (of_char c :: nat) in
      if n = 0x22 \<or> n = 0x5C then [CHR 0x5C, c]
      else if 0x20 \<le> n \<and> n \<le> 0x7E then [c]
      else if n = 7 then [CHR 0x5C, CHR ''a'']
      else if n = 8 then [CHR 0x5C, CHR ''b'']
      else if n = 12 then [CHR 0x5C, CHR ''f'']
      else if n = 10 then [CHR 0x5C, CHR ''n'']
      else if n = 13 then [CHR 0x5C, CHR ''r'']
      else if n = 9 then [CHR 0x5C, CHR ''t'']
      else if n = 11 then [CHR 0x5C, CHR ''v'']
      else if n < 0x20 \<or> n = 0x7F then [CHR 0x5C, CHR ''x'', hexDigit (n div 16), hexDigit (n mod 16)]
      else [c])"

definition Quote :: "string \<Rightarrow> string" where
  \<comment> \<open>\<^verbatim>\<open>strconv.Quote\<close>\<close>
  "Quote s = [CHR 0x22] @ concat (map quoteByte s) @ [CHR 0x22]"

definition syntaxError :: "string \<Rightarrow> string \<Rightarrow> error" where
  "syntaxError fn s = Errorf (''strconv.'' @ fn @ '': parsing '' @ Quote s @ '': invalid syntax'')"

definition rangeError :: "string \<Rightarrow> string \<Rightarrow> error" where
  "rangeError fn s = Errorf (''strconv.'' @ fn @ '': parsing '' @ Quote s @ '': value out of range'')"

datatype uintResult = UintOK nat | UintSyntax | UintRange

fun ParseUint_loop :: "string \<Rightarrow> nat \<Rightarrow> uintResult" where
  \<comment> \<open>the loop of \<^verbatim>\<open>strconv.ParseUint(s, 10, 64)\<close> over the bytes of \<open>s\<close>, \<open>n\<close> the value
      so far: the first byte that is no digit, or at which the value leaves 64 bits,
      ends it\<close>
  "ParseUint_loop [] n = UintOK n"
| "ParseUint_loop (c # cs) n =
     (if \<not> isDigit c then UintSyntax
      else if n \<ge> (2 ^ 64 - 1) div 10 + 1 then UintRange
      else if n * 10 + digitVal c > 2 ^ 64 - 1 then UintRange
      else ParseUint_loop cs (n * 10 + digitVal c))"

definition ParseUint :: "string \<Rightarrow> uintResult" where
  "ParseUint s = (if s = [] then UintSyntax else ParseUint_loop s 0)"

definition parseDecimal64 :: "string \<Rightarrow> string \<Rightarrow> error + int64" where
  \<comment> \<open>\<^verbatim>\<open>strconv.ParseInt(s, 10, 64)\<close>: the sign is picked off, the rest goes through
      \<^verbatim>\<open>ParseUint\<close>, and the value must lie within \<open>[-2^63, 2^63 - 1]\<close>; \<open>fn\<close> is the
      name reported in errors\<close>
  "parseDecimal64 fn s =
     (if s = [] then Inl (syntaxError fn s)
      else let neg = (hd s = CHR ''-'');
               ds = (if hd s = CHR ''+'' \<or> hd s = CHR ''-'' then tl s else s)
           in case ParseUint ds of
                UintSyntax \<Rightarrow> Inl (syntaxError fn s)
              | UintRange \<Rightarrow> Inl (rangeError fn s)
              | UintOK un \<Rightarrow>
                  if \<not> neg \<and> un \<ge> 2 ^ 63 then Inl (rangeError fn s)
                  else if neg \<and> un > 2 ^ 63 then Inl (rangeError fn s)
                  else Inr (if neg then - word_of_nat un else word_of_nat un))"

definition ParseInt :: "string \<Rightarrow> error + int64" where
  "ParseInt s = parseDecimal64 ''ParseInt'' s"

definition Atoi :: "string \<Rightarrow> error + int64" where
  \<comment> \<open>\<^verbatim>\<open>strconv.Atoi\<close>; \<^verbatim>\<open>int\<close> is 64 bits wide on the supported platforms\<close>
  "Atoi s = parseDecimal64 ''Atoi'' s"

subsection \<open>\<^verbatim>\<open>url.QueryUnescape\<close>\<close>

definition ishex :: "char \<Rightarrow> bool" where
  "ishex c = (let n = (of_char c :: nat)
              in (48 \<le> n \<and> n \<le> 57) \<or> (97 \<le> n \<and> n \<le> 102) \<or> (65 \<le> n \<and> n \<le> 70))"

definition unhex :: "char \<Rightarrow> nat" where
  "unhex c = (let n = (of_char c :: nat)
              in if 48 \<le> n \<and> n \<le> 57 then n - 48
                 else if 97 \<le> n \<and> n \<le> 102 then n - 97 + 10
                 else if 65 \<le> n \<and> n \<le> 70 then n - 65 + 10
                 else 0)"

definition EscapeError :: "string \<Rightarrow> error" where
  "EscapeError s = Errorf (''invalid URL escape '' @ Quote s)"

fun QueryUnescape :: "string \<Rightarrow> error + string" where
  "QueryUnescape [] = Inr []"
| "QueryUnescape (c # cs) =
     (if c = CHR ''%'' then
        (case cs of
           h1 # h2 # rest \<Rightarrow>
             if ishex h1 \<and> ishex h2
             then (case QueryUnescape rest of
                     Inl e \<Rightarrow> Inl e
                   | Inr r \<Rightarrow> Inr (char_of (unhex h1 * 16 + unhex h2) # r))
             else Inl (EscapeError (take 3 (c # cs)))
         | _ \<Rightarrow> Inl (EscapeError (take 3 (c # cs))))
      else (case QueryUnescape cs of
              Inl e \<Rightarrow> Inl e
            | Inr r \<Rightarrow> Inr ((if c = CHR ''+'' then CHR '' '' else c) # r)))"

section \<open>The Syncing File\<close>

datatype State =
  StatePending | StateStarting | StateInProgress | StateReady | StateFailed | StateUnknown

fun stateString :: "State \<Rightarrow> string" where
  "stateString StatePending = ''pending''"
| "stateString StateStarting = ''starting''"
| "stateString StateInProgress = ''in-progress''"
| "stateString StateReady = ''ready''"
| "stateString StateFailed = ''failed''"
| "stateString StateUnknown = ''unknown''"

record SyncingFile =
  filePath :: string
  uuid :: string
  diskUUID :: string
  expectedChecksum :: string
  size_sf :: int64
  state :: State

definition NewSyncingFile :: "string \<Rightarrow> string \<Rightarrow> string \<Rightarrow> string \<Rightarrow> int64 \<Rightarrow> SyncingFile" where
  \<comment> \<open>Modelled from the spec: the constructor of the Syncing File lives in a source file
      that is not part of the excerpt. The spec's data model gives the entity the
      attributes it is created with, and says that register "constructs the Syncing
      File in \<open>pending\<close>".\<close>
  "NewSyncingFile fp u d c n =
     \<lparr>filePath = fp, uuid = u, diskUUID = d, expectedChecksum = c, size_sf = n,
      state = StatePending\<rparr>"

section \<open>The Sync Service registry\<close>

text \<open>
  The two index maps of \<^verbatim>\<open>Service\<close> hold pointers. A pointer is a reference into
  the store \<open>objects\<close> of all Syncing File objects ever allocated; \<open>nextRef\<close> is the
  next unused reference, so every allocation yields an object distinct from all others.
  Unreachable objects are never reused, as under a garbage collector. A reference held
  by an index map always points to an allocated object; where a definition looks an
  object up in the store, the branch for a missing object is there because the store
  is a partial map, and it is never taken from a reachable state.

  \<^verbatim>\<open>checkAndInitSyncFile\<close> and \<^verbatim>\<open>cleanup\<close> change the maps while they hold the write
  lock of the service, so each is one atomic step on the registry.
\<close>

type_synonym ref = nat

record Service =
  filePathMap :: "string \<rightharpoonup> ref"
  fileUUIDMap :: "string \<rightharpoonup> ref"
  objects :: "ref \<rightharpoonup> SyncingFile"
  nextRef :: ref

definition InitService :: Service where
  "InitService = \<lparr>filePathMap = Map.empty, fileUUIDMap = Map.empty,
                  objects = Map.empty, nextRef = 0\<rparr>"

definition checkAndInitSyncFile ::
  "Service \<Rightarrow> string \<Rightarrow> string \<Rightarrow> string \<Rightarrow> string \<Rightarrow> int64 \<Rightarrow> (error + ref) \<times> Service" where
  "checkAndInitSyncFile s fp u d c n =
     (if filePathMap s fp \<noteq> None then
        (Inl (Errorf (''file '' @ fp @ '' already exists'')), s)
      else if fileUUIDMap s u \<noteq> None then
        (Inl (Errorf (''file '' @ fp @ '' with uuid '' @ u @ '' already exists'')), s)
      else
        let sf = nextRef s
        in (Inr sf,
            s\<lparr>filePathMap := (filePathMap s)(fp \<mapsto> sf),
              fileUUIDMap := (fileUUIDMap s)(u \<mapsto> sf),
              objects := (objects s)(sf \<mapsto> NewSyncingFile fp u d c n),
              nextRef := Suc sf\<rparr>))"

text \<open>
  \<^verbatim>\<open>cleanup\<close> ends with \<^verbatim>\<open>sf.Delete()\<close> when the file is to be deleted. That method
  is outside the excerpt; it is the parameter \<open>sfDelete\<close>, applied to the object that
  was just taken out of the index (its effect on the disk is not part of the registry).
\<close>

definition cleanup ::
  "(SyncingFile \<Rightarrow> SyncingFile) \<Rightarrow> Service \<Rightarrow> string \<Rightarrow> bool \<Rightarrow> Service" where
  "cleanup sfDelete s fp deleteFile =
     (case filePathMap s fp of
        None \<Rightarrow> s\<lparr>filePathMap := (filePathMap s)(fp := None)\<rparr>
      | Some sf \<Rightarrow>
          (case objects s sf of
             None \<Rightarrow> s\<lparr>filePathMap := (filePathMap s)(fp := None)\<rparr>
           | Some obj \<Rightarrow>
               let s1 = s\<lparr>filePathMap := (filePathMap s)(fp := None),
                          fileUUIDMap := (fileUUIDMap s)(uuid obj := None)\<rparr>
               in if deleteFile then s1\<lparr>objects := (objects s1)(sf \<mapsto> sfDelete obj)\<rparr>
                  else s1))"

subsection \<open>Histories of the registry\<close>

text \<open>
  A history is a finite sequence of register and cleanup operations, run from the
  freshly initialised service. Next to the service state the run keeps the set of
  \<^emph>\<open>live\<close> Syncing Files, defined from the history alone and not from the index
  maps: a file becomes live when a register call returns it, and stops being live when
  a cleanup (\<^verbatim>\<open>Delete\<close> or \<^verbatim>\<open>Forget\<close>) names its path.
\<close>

datatype op =
  Register string string string string int64
| Cleanup string bool

fun pathIs :: "Service \<Rightarrow> string \<Rightarrow> ref \<Rightarrow> bool" where
  "pathIs s fp r = (case objects s r of None \<Rightarrow> False | Some obj \<Rightarrow> filePath obj = fp)"

fun exec :: "(SyncingFile \<Rightarrow> SyncingFile) \<Rightarrow> op list \<Rightarrow> Service \<times> ref set \<Rightarrow> Service \<times> ref set" where
  "exec sfDelete [] st = st"
| "exec sfDelete (Register fp u d c n # ops) (s, live) =
     (case checkAndInitSyncFile s fp u d c n of
        (Inl e, s') \<Rightarrow> exec sfDelete ops (s', live)
      | (Inr sf, s') \<Rightarrow> exec sfDelete ops (s', insert sf live))"
| "exec sfDelete (Cleanup fp deleteFile # ops) (s, live) =
     exec sfDelete ops (cleanup sfDelete s fp deleteFile, {r \<in> live. \<not> pathIs s fp r})"

definition indexed :: "Service \<Rightarrow> ref \<Rightarrow> bool" where
  "indexed s r \<longleftrightarrow> (\<exists>obj. objects s r = Some obj
        \<and> filePathMap s (filePath obj) = Some r \<and> fileUUIDMap s (uuid obj) = Some r)"

definition consistent :: "Service \<Rightarrow> ref set \<Rightarrow> bool" where
  "consistent s live \<longleftrightarrow>
     (\<forall>r \<in> live. indexed s r)
   \<and> (\<forall>fp r. filePathMap s fp = Some r \<longrightarrow>
        r \<in> live \<and> (\<exists>obj. objects s r = Some obj \<and> filePath obj = fp))
   \<and> (\<forall>u r. fileUUIDMap s u = Some r \<longrightarrow>
        r \<in> live \<and> (\<exists>obj. objects s r = Some obj \<and> uuid obj = u))
   \<and> (\<forall>r. objects s r \<noteq> None \<longrightarrow> r < nextRef s)"


definition ops0 :: "op list" where
  "ops0 = [Register ''/a'' ''u1'' ''d'' '''' 512, Register ''/b'' ''u2'' ''d'' '''' 0,
           Register ''/a'' ''u3'' ''d'' '''' 0, Cleanup ''/a'' True]"

definition svc1 :: Service where
  "svc1 = snd (checkAndInitSyncFile InitService ''/a'' ''u1'' ''d'' '''' 512)"

section \<open>The download handler\<close>

subsection \<open>The idle-timeout copy pump\<close>

text \<open>
  \<^verbatim>\<open>IdleTimeoutCopy\<close> runs against three parties: the context, the source reader and
  the destination writer. What the first two present to the loop, iteration by
  iteration, is a sequence of events: either the \<^verbatim>\<open>ctx.Done()\<close> channel is ready,
  or \<^verbatim>\<open>src.Read(buf)\<close> returns, leaving \<open>data\<close> in \<^verbatim>\<open>buf[0:nr]\<close> (so \<open>nr\<close> is the
  length of \<open>data\<close>) together with \<^verbatim>\<open>rErr\<close>. The watchdog goroutine fed through
  \<^verbatim>\<open>writeSeekCh\<close> acts on the loop only by cancelling the context, which is the first
  kind of event. The loop is run on a finite prefix of the events; when the prefix is
  used up before the loop has ended, the result is \<open>None\<close> (the pump has not returned).

  The destination is any \<^verbatim>\<open>io.WriteSeeker\<close>: a state with a \<^verbatim>\<open>Write\<close> method, which
  returns the count \<^verbatim>\<open>nw\<close> and an error, and a \<^verbatim>\<open>Seek\<close> method, here always called
  with \<^verbatim>\<open>io.SeekCurrent\<close>, of which only the error is used.

  The effects of the pump are recorded in a trace, in the order they happen: every
  read performed, every call on the destination with what it returned, and every
  progress update.
\<close>

definition DownloadBufferSize :: nat where
  "DownloadBufferSize = 2 ^ 12"

datatype 'a result = Returns 'a | Panics string

datatype srcEvent = CtxDone | Read string "error option"

record 'w WriteSeeker =
  Write :: "'w \<Rightarrow> string \<Rightarrow> (int64 \<times> error option) \<times> 'w"
  Seek :: "'w \<Rightarrow> int64 \<Rightarrow> error option \<times> 'w"

datatype io =
  SrcRead string "error option"
| DstSeek int64 "error option"
| DstWrite string int64 "error option"
| UpdateProgress int64

record 'w pump =
  dst :: 'w
  copied :: int64
  trace :: "io list"

definition zeroByteArray :: string where
  "zeroByteArray = replicate DownloadBufferSize (CHR 0x00)"

definition account :: "int64 \<Rightarrow> error option \<Rightarrow> 'w pump \<Rightarrow> error option \<times> 'w pump" where
  \<comment> \<open>after the seek or the write: on an error nothing is counted; otherwise \<^verbatim>\<open>nws\<close> is
      added to \<^verbatim>\<open>copied\<close> and reported to the updater\<close>
  "account nws handleErr st =
     (case handleErr of
        Some err \<Rightarrow> (Some err, st)
      | None \<Rightarrow> (None, st\<lparr>copied := copied st + nws, trace := trace st @ [UpdateProgress nws]\<rparr>))"

definition handleBuffer ::
  "'w WriteSeeker \<Rightarrow> bool \<Rightarrow> string \<Rightarrow> 'w pump \<Rightarrow> error option \<times> 'w pump" where
  \<comment> \<open>the body of \<^verbatim>\<open>if nr > 0\<close>\<close>
  "handleBuffer ws writeZero data st =
     (let nr = length data in
      if \<not> writeZero \<and> data = take nr zeroByteArray then
        (case Seek ws (dst st) (word_of_nat nr) of
           (handleErr, d) \<Rightarrow>
             account (word_of_nat nr) handleErr
               (st\<lparr>dst := d, trace := trace st @ [DstSeek (word_of_nat nr) handleErr]\<rparr>))
      else
        (case Write ws (dst st) data of
           ((nw, handleErr), d) \<Rightarrow>
             account nw handleErr
               (st\<lparr>dst := d, trace := trace st @ [DstWrite data nw handleErr]\<rparr>)))"

fun copyLoop ::
  "'w WriteSeeker \<Rightarrow> bool \<Rightarrow> srcEvent list \<Rightarrow> 'w pump
     \<Rightarrow> (int64 \<times> error option) result option \<times> 'w pump" where
  "copyLoop ws writeZero [] st = (None, st)"
| "copyLoop ws writeZero (CtxDone # evs) st =
     (Some (Returns (copied st, Some (Errorf ''context cancelled during the copy''))), st)"
| "copyLoop ws writeZero (Read data rErr # evs) st =
     (let st1 = st\<lparr>trace := trace st @ [SrcRead data rErr]\<rparr> in
      if length data > DownloadBufferSize then (Some (Panics ''slice bounds out of range''), st1)
      else
        (case (if length data > 0 then handleBuffer ws writeZero data st1 else (None, st1)) of
           (Some handleErr, st2) \<Rightarrow> (Some (Returns (copied st2, Some handleErr)), st2)
         | (None, st2) \<Rightarrow>
             (case rErr of
                Some err \<Rightarrow>
                  (Some (Returns (copied st2, if err \<noteq> EOF then Some err else None)), st2)
              | None \<Rightarrow> copyLoop ws writeZero evs st2)))"

definition IdleTimeoutCopy ::
  "'w WriteSeeker \<Rightarrow> bool \<Rightarrow> srcEvent list \<Rightarrow> 'w
     \<Rightarrow> (int64 \<times> error option) result option \<times> 'w pump" where
  "IdleTimeoutCopy ws writeZero src d =
     copyLoop ws writeZero src \<lparr>dst = d, copied = 0, trace = []\<rparr>"

subsection \<open>Observations on a trace\<close>



fun buffersRead :: "io list \<Rightarrow> string list" where
  \<comment> \<open>the buffers \<^verbatim>\<open>buf[0:nr]\<close> that reads with \<^verbatim>\<open>nr > 0\<close> have filled\<close>
  "buffersRead [] = []"
| "buffersRead (SrcRead data e # t) =
     (if 0 < length data \<and> length data \<le> DownloadBufferSize then data # buffersRead t
      else buffersRead t)"
| "buffersRead (x # t) = buffersRead t"

definition allZero :: "string \<Rightarrow> bool" where
  "allZero data \<longleftrightarrow> data = replicate (length data) (CHR 0x00)"


fun bytesRead :: "io list \<Rightarrow> int" where
  "bytesRead [] = 0"
| "bytesRead (SrcRead data e # t) = int (length data) + bytesRead t"
| "bytesRead (x # t) = bytesRead t"

fun nonZeroBytesRead :: "io list \<Rightarrow> int" where
  \<comment> \<open>the bytes read in buffers that are not entirely zero\<close>
  "nonZeroBytesRead [] = 0"
| "nonZeroBytesRead (SrcRead data e # t) =
     (if allZero data then nonZeroBytesRead t else int (length data) + nonZeroBytesRead t)"
| "nonZeroBytesRead (x # t) = nonZeroBytesRead t"

fun bytesWritten :: "io list \<Rightarrow> int" where
  \<comment> \<open>the bytes the destination reports as written, over all \<^verbatim>\<open>Write\<close> calls\<close>
  "bytesWritten [] = 0"
| "bytesWritten (DstWrite bs nw e # t) = sint nw + bytesWritten t"
| "bytesWritten (x # t) = bytesWritten t"

definition writerContract :: "'w WriteSeeker \<Rightarrow> bool" where
  \<comment> \<open>the contract of \<^verbatim>\<open>io.Writer\<close>: \<^verbatim>\<open>Write(p)\<close> returns a count \<open>n \<le> len(p)\<close>\<close>
  "writerContract ws \<longleftrightarrow> (\<forall>w p. sint (fst (fst (Write ws w p))) \<le> int (length p))"

subsection \<open>Files (\<^verbatim>\<open>os.File\<close>)\<close>

text \<open>
  An open file has its contents, the current offset, and a fault script: each call on
  the file consumes one entry of the script (if any is left), and an entry
  \<open>Some (k, err)\<close> makes that call fail with \<open>err\<close>, a write having stored its first
  \<open>k\<close> bytes. Any failure of the underlying file system is an instance of a script.
\<close>

record File =
  contents :: string
  offset :: nat
  faults :: "(nat \<times> error) option list"

definition pwrite :: "string \<Rightarrow> nat \<Rightarrow> string \<Rightarrow> string" where
  \<comment> \<open>store \<open>b\<close> at offset \<open>off\<close>; a gap past the end reads as zero bytes\<close>
  "pwrite c off b =
     (if b = [] then c
      else take off c @ replicate (off - length c) (CHR 0x00) @ b @ drop (off + length b) c)"

definition File_Write :: "File \<Rightarrow> string \<Rightarrow> (int64 \<times> error option) \<times> File" where
  "File_Write f b =
     (case faults f of
        Some (k, err) # rest \<Rightarrow>
          let n = min k (length b) in
          ((word_of_nat n, Some err),
           f\<lparr>contents := pwrite (contents f) (offset f) (take n b),
             offset := offset f + n, faults := rest\<rparr>)
      | _ \<Rightarrow>
          ((word_of_nat (length b), None),
           f\<lparr>contents := pwrite (contents f) (offset f) b,
             offset := offset f + length b, faults := tl (faults f)\<rparr>))"

definition File_Seek :: "File \<Rightarrow> int64 \<Rightarrow> error option \<times> File" where
  \<comment> \<open>\<^verbatim>\<open>Seek(off, io.SeekCurrent)\<close>\<close>
  "File_Seek f off =
     (case faults f of
        Some (k, err) # rest \<Rightarrow> (Some err, f\<lparr>faults := rest\<rparr>)
      | _ \<Rightarrow>
          let p = int (offset f) + sint off in
          if p < 0 then (Some (Errorf ''invalid argument''), f\<lparr>faults := tl (faults f)\<rparr>)
          else (None, f\<lparr>offset := nat p, faults := tl (faults f)\<rparr>))"

definition File_Truncate :: "File \<Rightarrow> int64 \<Rightarrow> error option \<times> File" where
  "File_Truncate f size' =
     (case faults f of
        Some (k, err) # rest \<Rightarrow> (Some err, f\<lparr>faults := rest\<rparr>)
      | _ \<Rightarrow>
          if sint size' < 0 then (Some (Errorf ''invalid argument''), f\<lparr>faults := tl (faults f)\<rparr>)
          else
            let n = nat (sint size') in
            (None, f\<lparr>contents := take n (contents f) @ replicate (n - length (contents f)) (CHR 0x00),
                      faults := tl (faults f)\<rparr>))"

definition osFile :: "File WriteSeeker" where
  "osFile = \<lparr>Write = File_Write, Seek = File_Seek\<rparr>"

subsection \<open>\<^verbatim>\<open>HTTPHandler.DownloadFromURL\<close>\<close>

text \<open>
  The environment of a download: whether building the request or performing it fails,
  the status of the response, what reading the response body yields, whether creating
  the destination fails, and the fault script of the destination file. The file system
  maps a path to the contents of the file there. Closing the response body and the
  file, and cancelling the context, are deferred calls without effect on the result.
\<close>

record DownloadSource =
  newRequestErr :: "error option"
  doErr :: "error option"
  respStatusCode :: nat
  respStatus :: string
  respBody :: "srcEvent list"
  createErr :: "error option"
  fileFaults :: "(nat \<times> error) option list"

type_synonym fs = "string \<rightharpoonup> string"

definition os_Create :: "DownloadSource \<Rightarrow> fs \<Rightarrow> string \<Rightarrow> (error + File) \<times> fs" where
  \<comment> \<open>\<^verbatim>\<open>os.Create\<close>: the file is created, or truncated when it exists\<close>
  "os_Create env files name =
     (case createErr env of
        Some err \<Rightarrow> (Inl err, files)
      | None \<Rightarrow> (Inr \<lparr>contents = [], offset = 0, faults = fileFaults env\<rparr>, files(name \<mapsto> [])))"

definition HTTPHandler_DownloadFromURL ::
  "DownloadSource \<Rightarrow> string \<Rightarrow> string \<Rightarrow> fs \<Rightarrow> (int64 \<times> error option) result option \<times> fs" where
  "HTTPHandler_DownloadFromURL env url filePath' files =
     (case newRequestErr env of
        Some err \<Rightarrow> (Some (Returns (0, Some err)), files)
      | None \<Rightarrow>
     (case doErr env of
        Some err \<Rightarrow> (Some (Returns (0, Some err)), files)
      | None \<Rightarrow>
     if respStatusCode env \<noteq> 200 then
       (Some (Returns (0, Some (Errorf (''expected status code 200 from '' @ url @ '', got ''
                                        @ respStatus env)))), files)
     else
     (case os_Create env files filePath' of
        (Inl err, files1) \<Rightarrow> (Some (Returns (0, Some err)), files1)
      | (Inr outFile, files1) \<Rightarrow>
          (case IdleTimeoutCopy osFile False (respBody env) outFile of
             (None, st) \<Rightarrow> (None, files1(filePath' \<mapsto> contents (dst st)))
           | (Some (Panics msg), st) \<Rightarrow>
               (Some (Panics msg), files1(filePath' \<mapsto> contents (dst st)))
           | (Some (Returns (copied', Some err)), st) \<Rightarrow>
               (Some (Returns (0, Some err)), files1(filePath' \<mapsto> contents (dst st)))
           | (Some (Returns (copied', None)), st) \<Rightarrow>
               (case File_Truncate (dst st) copied' of
                  (Some err, f) \<Rightarrow>
                    (Some (Returns (0, Some (Wrapf err ''failed to truncate the file after download''))),
                     files1(filePath' \<mapsto> contents f))
                | (None, f) \<Rightarrow>
                    (Some (Returns (copied', None)), files1(filePath' \<mapsto> contents f)))))))"

fun bodyBytes :: "srcEvent list \<Rightarrow> string" where
  \<comment> \<open>the bytes a source delivers up to and including the read that reports an error
      or the end of the stream\<close>
  "bodyBytes [] = []"
| "bodyBytes (CtxDone # evs) = []"
| "bodyBytes (Read data rErr # evs) =
     data @ (case rErr of None \<Rightarrow> bodyBytes evs | Some err \<Rightarrow> [])"

text \<open>
  The destination file of a sparse copy is in step with the stream read so far: the
  offset is the length of the stream, the contents are the stream up to its trailing
  skipped zero bytes, and \<^verbatim>\<open>copied\<close> is the offset.
\<close>

definition synced :: "File pump \<Rightarrow> bool" where
  "synced st \<longleftrightarrow>
     offset (dst st) = length (concat (buffersRead (trace st)))
   \<and> length (contents (dst st)) \<le> offset (dst st)
   \<and> contents (dst st) @ replicate (offset (dst st) - length (contents (dst st))) (CHR 0x00)
       = concat (buffersRead (trace st))
   \<and> copied st = word_of_nat (offset (dst st))"

section \<open>The HTTP control surface\<close>

subsection \<open>Requests and response writers (\<^verbatim>\<open>net/http\<close>, \<^verbatim>\<open>gorilla/mux\<close>)\<close>

text \<open>
  A request is modelled by what the handlers read from it: the method, the route
  variables of \<^verbatim>\<open>mux.Vars\<close>, the parsed query of \<^verbatim>\<open>request.URL.Query()\<close>, the
  outcome of decoding the body as the JSON credential map, and the outcome of reading
  the body as a multipart stream (the parts in order, each with its form name and its
  content, and the error \<^verbatim>\<open>NextPart\<close> returns once they are used up).
\<close>

datatype jsonBody =
  Credential "(string \<times> string) list"
| CredentialError error

record Request =
  reqMethod :: string
  vars :: "string \<rightharpoonup> string"
  query :: "string \<rightharpoonup> string list"
  credentialBody :: jsonBody
  multipart :: "error + ((string \<times> string) list \<times> error)"

definition Var :: "Request \<Rightarrow> string \<Rightarrow> string" where
  \<comment> \<open>\<^verbatim>\<open>mux.Vars(request)[key]\<close>: the empty string for a missing key\<close>
  "Var request key = (case vars request key of None \<Rightarrow> [] | Some v \<Rightarrow> v)"

definition Get_query :: "Request \<Rightarrow> string \<Rightarrow> string" where
  \<comment> \<open>\<^verbatim>\<open>request.URL.Query().Get(key)\<close>: the first value of the key, or the empty string\<close>
  "Get_query request key =
     (case query request key of None \<Rightarrow> [] | Some [] \<Rightarrow> [] | Some (v # _) \<Rightarrow> v)"

text \<open>
  A response writer records the header map, the status code once the header has been
  written, and the body bytes written so far. A handler that returns without writing
  anything makes the server send status 200.
\<close>

record ResponseWriter =
  header :: "string \<rightharpoonup> string"
  status :: "nat option"
  body :: string

definition newResponseWriter :: ResponseWriter where
  "newResponseWriter = \<lparr>header = Map.empty, status = None, body = []\<rparr>"

definition StatusOK :: nat where "StatusOK = 200"
definition StatusBadRequest :: nat where "StatusBadRequest = 400"
definition StatusNotFound :: nat where "StatusNotFound = 404"
definition StatusInternalServerError :: nat where "StatusInternalServerError = 500"

definition Header_Set :: "ResponseWriter \<Rightarrow> string \<Rightarrow> string \<Rightarrow> ResponseWriter" where
  "Header_Set w k v = w\<lparr>header := (header w)(k \<mapsto> v)\<rparr>"

definition Header_Del :: "ResponseWriter \<Rightarrow> string \<Rightarrow> ResponseWriter" where
  "Header_Del w k = w\<lparr>header := (header w)(k := None)\<rparr>"

definition WriteHeader :: "ResponseWriter \<Rightarrow> nat \<Rightarrow> ResponseWriter" where
  \<comment> \<open>a second \<^verbatim>\<open>WriteHeader\<close> is ignored by the server\<close>
  "WriteHeader w code = (case status w of None \<Rightarrow> w\<lparr>status := Some code\<rparr> | Some _ \<Rightarrow> w)"

definition Write_body :: "ResponseWriter \<Rightarrow> string \<Rightarrow> ResponseWriter" where
  \<comment> \<open>\<^verbatim>\<open>writer.Write\<close>: the first write sends the header with status 200\<close>
  "Write_body w bs = (let w1 = WriteHeader w StatusOK in w1\<lparr>body := body w1 @ bs\<rparr>)"

definition http_Error :: "ResponseWriter \<Rightarrow> string \<Rightarrow> nat \<Rightarrow> ResponseWriter" where
  \<comment> \<open>\<^verbatim>\<open>http.Error(w, msg, code)\<close>: no content length, plain-text headers, the status,
      the message and a newline\<close>
  "http_Error w msg code =
     (let w0 = Header_Del w ''Content-Length'';
          w1 = Header_Set w0 ''Content-Type'' ''text/plain; charset=utf-8'';
          w2 = Header_Set w1 ''X-Content-Type-Options'' ''nosniff'';
          w3 = WriteHeader w2 code
      in Write_body w3 (msg @ [CHR 0x0A]))"

definition statusSent :: "ResponseWriter \<Rightarrow> nat" where
  "statusSent w = (case status w of None \<Rightarrow> StatusOK | Some code \<Rightarrow> code)"

subsection \<open>Constants of package \<^verbatim>\<open>types\<close>\<close>

definition DefaultSectorSize :: int where
  \<comment> \<open>Modelled from the spec: package \<^verbatim>\<open>types\<close> is outside the excerpt; the spec gives
      the sector size as 512.\<close>
  "DefaultSectorSize = 512"

definition DataSourceTypeCloneParameterBackingImage :: string where
  \<comment> \<open>Modelled from the spec: the query names of the clone endpoint in the spec's
      table of the HTTP control surface.\<close>
  "DataSourceTypeCloneParameterBackingImage = ''backing-image''"

definition DataSourceTypeCloneParameterBackingImageUUID :: string where
  \<comment> \<open>Modelled from the spec: see above.\<close>
  "DataSourceTypeCloneParameterBackingImageUUID = ''backing-image-uuid''"

definition DataSourceTypeCloneParameterEncryption :: string where
  \<comment> \<open>Modelled from the spec: see above.\<close>
  "DataSourceTypeCloneParameterEncryption = ''encryption''"

definition EncryptionTypeEncrypt :: string where
  \<comment> \<open>Modelled from the spec: \<open>encryption \<in> {encrypt, decrypt, ignore}\<close>.\<close>
  "EncryptionTypeEncrypt = ''encrypt''"

definition EncryptionTypeDecrypt :: string where
  \<comment> \<open>Modelled from the spec: see above.\<close>
  "EncryptionTypeDecrypt = ''decrypt''"

definition EncryptionTypeIgnore :: string where
  \<comment> \<open>Modelled from the spec: see above.\<close>
  "EncryptionTypeIgnore = ''ignore''"

definition DataSourceTypeRestoreParameterBackupURL :: string where
  \<comment> \<open>Modelled from the spec: the query name of the restore endpoint.\<close>
  "DataSourceTypeRestoreParameterBackupURL = ''backup-url''"

definition DataSourceTypeParameterDataEngine :: string where
  \<comment> \<open>Modelled from the spec: the query name \<open>data-engine\<close>.\<close>
  "DataSourceTypeParameterDataEngine = ''data-engine''"

definition SyncingFileTypeEmpty :: string where
  \<comment> \<open>Modelled from the spec: \<open>file-type \<in> {raw, qcow2}\<close>, \<open>raw\<close> the default.\<close>
  "SyncingFileTypeEmpty = []"

definition SyncingFileTypeRaw :: string where
  \<comment> \<open>Modelled from the spec: see above.\<close>
  "SyncingFileTypeRaw = ''raw''"

definition SyncingFileTypeQcow2 :: string where
  \<comment> \<open>Modelled from the spec: see above.\<close>
  "SyncingFileTypeQcow2 = ''qcow2''"

subsection \<open>Methods of the Syncing File used by the handlers\<close>

text \<open>
  The methods of \<^verbatim>\<open>SyncingFile\<close> are outside the excerpt. The handlers take them as
  parameters: each is a function of the object it is called on, returning what the
  method returns and, where the method mutates the object, the object afterwards.
\<close>

record SyncingFileMethods =
  mDelete :: "SyncingFile \<Rightarrow> SyncingFile"
  mGetJSON :: "SyncingFile \<Rightarrow> error + string"
  mWaitForStateNonPending :: "SyncingFile \<Rightarrow> error option"
  mIdleTimeoutCopyToFile :: "SyncingFile \<Rightarrow> string \<Rightarrow> string \<Rightarrow> error option \<times> SyncingFile"
  mSend :: "SyncingFile \<Rightarrow> string \<Rightarrow> error option"
  mGetFileReader :: "SyncingFile \<Rightarrow> error + string"

text \<open>
  A handler that registers a file starts a goroutine that drives the transfer. The
  goroutine runs after the handler has returned; the handler's model returns the job
  it started, with the values the goroutine captured.
\<close>

datatype job =
  FetchJob ref string
| DownloadJob ref string string
| CloneJob ref string string string "(string \<times> string) list" string
| RestoreJob ref string "(string \<times> string) list" int64 string
| ReceiveJob ref int64 string string

type_synonym doResult = "(error option \<times> job option) \<times> Service"

definition failWith :: "error \<Rightarrow> Service \<Rightarrow> doResult" where
  "failWith err s = ((Some err, None), s)"

subsection \<open>Get, Delete and Forget\<close>

definition Get :: "SyncingFileMethods \<Rightarrow> Service \<Rightarrow> Request \<Rightarrow> ResponseWriter \<Rightarrow> ResponseWriter" where
  "Get m s request writer =
     (let encodedID = Var request ''id'' in
      case QueryUnescape encodedID of
        Inl err \<Rightarrow>
          http_Error writer (''invalid id '' @ encodedID @ '' for decoding: '' @ Error err)
            StatusBadRequest
      | Inr filePath' \<Rightarrow>
          (case filePathMap s filePath' of
             None \<Rightarrow> http_Error writer (''can not find sync file '' @ filePath') StatusNotFound
           | Some sf \<Rightarrow>
               (case objects s sf of
                  None \<Rightarrow> http_Error writer (''can not find sync file '' @ filePath') StatusNotFound
                | Some obj \<Rightarrow>
                    (case mGetJSON m obj of
                       Inl err \<Rightarrow> http_Error writer (Error err) StatusInternalServerError
                     | Inr outgoingJSON \<Rightarrow>
                         Write_body (Header_Set writer ''Content-Type'' ''application/json'')
                           outgoingJSON))))"

definition doCleanup :: "SyncingFileMethods \<Rightarrow> Service \<Rightarrow> Request \<Rightarrow> bool \<Rightarrow> error option \<times> Service" where
  "doCleanup m s request deleteFile =
     (let encodedID = Var request ''id'' in
      case QueryUnescape encodedID of
        Inl err \<Rightarrow> (Some err, s)
      | Inr filePath' \<Rightarrow> (None, cleanup (mDelete m) s filePath' deleteFile))"

definition Delete :: "SyncingFileMethods \<Rightarrow> Service \<Rightarrow> Request \<Rightarrow> ResponseWriter \<Rightarrow> ResponseWriter \<times> Service" where
  "Delete m s request writer =
     (case doCleanup m s request True of
        (Some err, s') \<Rightarrow> (http_Error writer (Error err) StatusBadRequest, s')
      | (None, s') \<Rightarrow> (writer, s'))"

definition Forget :: "SyncingFileMethods \<Rightarrow> Service \<Rightarrow> Request \<Rightarrow> ResponseWriter \<Rightarrow> ResponseWriter \<times> Service" where
  "Forget m s request writer =
     (case doCleanup m s request False of
        (Some err, s') \<Rightarrow> (http_Error writer (Error err) StatusBadRequest, s')
      | (None, s') \<Rightarrow> (writer, s'))"

subsection \<open>The registering endpoints\<close>

definition respond :: "doResult \<Rightarrow> ResponseWriter \<Rightarrow> (ResponseWriter \<times> job option) \<times> Service" where
  \<comment> \<open>the body shared by the handlers of the registering endpoints:
      \<^verbatim>\<open>if err != nil { http.Error(writer, err.Error(), http.StatusInternalServerError) }\<close>\<close>
  "respond r writer =
     (case r of
        ((Some err, j), s') \<Rightarrow> ((http_Error writer (Error err) StatusInternalServerError, j), s')
      | ((None, j), s') \<Rightarrow> ((writer, j), s'))"

definition sizeError :: "string \<Rightarrow> int64 \<Rightarrow> error" where
  "sizeError what size' =
     Errorf (''the '' @ what @ '' size '' @ FormatInt (sint size') @ '' should be a multiple of ''
       @ FormatInt DefaultSectorSize @ '' bytes since Longhorn uses directIO by default'')"

definition doFetch :: "Service \<Rightarrow> Request \<Rightarrow> doResult" where
  "doFetch s request =
     (let srcFilePath = Get_query request ''src-file-path'' in
      if srcFilePath = [] then failWith (Errorf ''no srcFilePath for existing file fetch'') s else
      let dstFilePath = Get_query request ''dst-file-path'' in
      if dstFilePath = [] then failWith (Errorf ''no dstFilePath for existing file fetch'') s else
      let uuid' = Get_query request ''uuid'' in
      if uuid' = [] then failWith (Errorf ''no uuid for existing file fetch'') s else
      let diskUUID' = Get_query request ''disk-uuid'' in
      if diskUUID' = [] then failWith (Errorf ''no diskUUID for existing file fetch'') s else
      let expectedChecksum' = Get_query request ''expected-checksum'' in
      case ParseInt (Get_query request ''size'') of
        Inl err \<Rightarrow> failWith err s
      | Inr size' \<Rightarrow>
          if sint size' smod DefaultSectorSize \<noteq> 0 then failWith (sizeError ''file'' size') s
          else
            (case checkAndInitSyncFile s dstFilePath uuid' diskUUID' expectedChecksum' size' of
               (Inl err, s') \<Rightarrow> failWith err s'
             | (Inr sf, s') \<Rightarrow> ((None, Some (FetchJob sf srcFilePath)), s')))"

definition Fetch :: "Service \<Rightarrow> Request \<Rightarrow> ResponseWriter \<Rightarrow> (ResponseWriter \<times> job option) \<times> Service" where
  "Fetch s request writer = respond (doFetch s request) writer"

definition doDownloadFromURL :: "Service \<Rightarrow> Request \<Rightarrow> doResult" where
  "doDownloadFromURL s request =
     (let filePath' = Get_query request ''file-path'' in
      if filePath' = [] then failWith (Errorf ''no filePath for file downloading'') s else
      let uuid' = Get_query request ''uuid'' in
      if uuid' = [] then failWith (Errorf ''no uuid for downloading file'') s else
      let url = Get_query request ''url'' in
      if url = [] then failWith (Errorf ''no URL for file downloading'') s else
      let diskUUID' = Get_query request ''disk-uuid'';
          expectedChecksum' = Get_query request ''expected-checksum'';
          dataEngine = Get_query request ''data-engine'' in
      case checkAndInitSyncFile s filePath' uuid' diskUUID' expectedChecksum' 0 of
        (Inl err, s') \<Rightarrow> failWith err s'
      | (Inr sf, s') \<Rightarrow> ((None, Some (DownloadJob sf url dataEngine)), s'))"

definition DownloadFromURL :: "Service \<Rightarrow> Request \<Rightarrow> ResponseWriter \<Rightarrow> (ResponseWriter \<times> job option) \<times> Service" where
  "DownloadFromURL s request writer = respond (doDownloadFromURL s request) writer"

definition doCloneFromBackingImage :: "Service \<Rightarrow> Request \<Rightarrow> doResult" where
  "doCloneFromBackingImage s request =
     (let sourceBackingImage = Get_query request DataSourceTypeCloneParameterBackingImage in
      if sourceBackingImage = [] then
        failWith (Errorf (DataSourceTypeCloneParameterBackingImage @ '' is not specified'')) s else
      let sourceBackingImageUUID = Get_query request DataSourceTypeCloneParameterBackingImageUUID in
      if sourceBackingImageUUID = [] then
        failWith (Errorf (DataSourceTypeCloneParameterBackingImageUUID @ '' is not specified'')) s else
      let encryption = Get_query request DataSourceTypeCloneParameterEncryption in
      if encryption \<noteq> EncryptionTypeEncrypt \<and> encryption \<noteq> EncryptionTypeDecrypt
           \<and> encryption \<noteq> EncryptionTypeIgnore then
        failWith (Errorf (DataSourceTypeCloneParameterEncryption @ '' operation '' @ encryption
                          @ '' is not specified'')) s else
      let filePath' = Get_query request ''file-path'' in
      if filePath' = [] then failWith (Errorf ''no filePath restoring file'') s else
      let uuid' = Get_query request ''uuid'' in
      if uuid' = [] then failWith (Errorf ''no uuid for restoring file'') s else
      let diskUUID' = Get_query request ''disk-uuid'';
          expectedChecksum' = Get_query request ''expected-checksum'';
          dataEngine = Get_query request DataSourceTypeParameterDataEngine in
      case (case credentialBody request of
              Credential c \<Rightarrow> Inr c
            | CredentialError err \<Rightarrow>
                if err \<noteq> EOF
                then Inl (Wrapf err ''failed to get credential failed from request'')
                else Inr []) of
        Inl err \<Rightarrow> failWith err s
      | Inr credential \<Rightarrow>
          (case checkAndInitSyncFile s filePath' uuid' diskUUID' expectedChecksum' 0 of
             (Inl err, s') \<Rightarrow> failWith err s'
           | (Inr sf, s') \<Rightarrow>
               ((None, Some (CloneJob sf sourceBackingImage sourceBackingImageUUID encryption
                               credential dataEngine)), s')))"

definition CloneFromBackingImage :: "Service \<Rightarrow> Request \<Rightarrow> ResponseWriter \<Rightarrow> (ResponseWriter \<times> job option) \<times> Service" where
  "CloneFromBackingImage s request writer = respond (doCloneFromBackingImage s request) writer"

definition doRestoreFromBackupURL :: "Service \<Rightarrow> Request \<Rightarrow> doResult" where
  "doRestoreFromBackupURL s request =
     (let filePath' = Get_query request ''file-path'' in
      if filePath' = [] then failWith (Errorf ''no filePath restoring file'') s else
      let uuid' = Get_query request ''uuid'' in
      if uuid' = [] then failWith (Errorf ''no uuid for restoring file'') s else
      let backupURL = Get_query request DataSourceTypeRestoreParameterBackupURL in
      if backupURL = [] then
        failWith (Errorf (''no '' @ DataSourceTypeRestoreParameterBackupURL @ '' for restoring file'')) s else
      let diskUUID' = Get_query request ''disk-uuid'';
          expectedChecksum' = Get_query request ''expected-checksum'';
          concurrentLimitStr = Get_query request ''concurrent-limit'' in
      case Atoi concurrentLimitStr of
        Inl err \<Rightarrow>
          failWith (Wrapf err ''failed to get valid concurrentLimit for restoring file'') s
      | Inr concurrentLimit \<Rightarrow>
          (case (case credentialBody request of
                   Credential c \<Rightarrow> Inr c
                 | CredentialError err \<Rightarrow>
                     if err \<noteq> EOF then Inl (Errorf ''get credential failed from request'')
                     else Inr []) of
             Inl err \<Rightarrow> failWith err s
           | Inr credential \<Rightarrow>
               let dataEngine = Get_query request ''data-engine'' in
               (case checkAndInitSyncFile s filePath' uuid' diskUUID' expectedChecksum' 0 of
                  (Inl err, s') \<Rightarrow> failWith err s'
                | (Inr sf, s') \<Rightarrow>
                    ((None, Some (RestoreJob sf backupURL credential concurrentLimit dataEngine)),
                     s'))))"

definition RestoreFromBackupURL :: "Service \<Rightarrow> Request \<Rightarrow> ResponseWriter \<Rightarrow> (ResponseWriter \<times> job option) \<times> Service" where
  "RestoreFromBackupURL s request writer = respond (doRestoreFromBackupURL s request) writer"

fun nextChunk :: "(string \<times> string) list \<Rightarrow> error \<Rightarrow> error + string" where
  \<comment> \<open>the loop over \<^verbatim>\<open>reader.NextPart()\<close>: parts whose form name is not \<open>chunk\<close> are
      skipped; the error that ends the parts is returned when no part is a chunk\<close>
  "nextChunk [] end = Inl end"
| "nextChunk ((formName, content) # parts) end =
     (if formName \<noteq> ''chunk'' then nextChunk parts end else Inr content)"

definition doUploadFromRequest :: "SyncingFileMethods \<Rightarrow> Service \<Rightarrow> Request \<Rightarrow> doResult" where
  "doUploadFromRequest m s request =
     (let filePath' = Get_query request ''file-path'' in
      if filePath' = [] then failWith (Errorf ''no file-path for uploading file'') s else
      let uuid' = Get_query request ''uuid'' in
      if uuid' = [] then failWith (Errorf ''no uuid for uploading file'') s else
      let diskUUID' = Get_query request ''disk-uuid'';
          expectedChecksum' = Get_query request ''expected-checksum'' in
      case ParseInt (Get_query request ''size'') of
        Inl err \<Rightarrow> failWith err s
      | Inr size' \<Rightarrow>
          if sint size' smod DefaultSectorSize \<noteq> 0 then
            failWith (sizeError ''uploaded file'' size') s
          else
            let dataEngine = Get_query request DataSourceTypeParameterDataEngine in
            (case checkAndInitSyncFile s filePath' uuid' diskUUID' expectedChecksum' size' of
               (Inl err, s') \<Rightarrow> failWith err s'
             | (Inr sf, s') \<Rightarrow>
                 (case multipart request of
                    Inl err \<Rightarrow> failWith err s'
                  | Inr (parts, end) \<Rightarrow>
                      (case nextChunk parts end of
                         Inl err \<Rightarrow> failWith err s'
                       | Inr p \<Rightarrow>
                           (case objects s' sf of
                              None \<Rightarrow> failWith (Errorf ''nil sync file'') s'
                            | Some obj \<Rightarrow>
                                (case mWaitForStateNonPending m obj of
                                   Some err \<Rightarrow> failWith err s'
                                 | None \<Rightarrow>
                                     (case mIdleTimeoutCopyToFile m obj p dataEngine of
                                        (Some err, obj') \<Rightarrow>
                                          failWith err (s'\<lparr>objects := (objects s')(sf \<mapsto> obj')\<rparr>)
                                      | (None, obj') \<Rightarrow>
                                          ((None, None),
                                           s'\<lparr>objects := (objects s')(sf \<mapsto> obj')\<rparr>))))))))"

definition UploadFromRequest :: "SyncingFileMethods \<Rightarrow> Service \<Rightarrow> Request \<Rightarrow> ResponseWriter \<Rightarrow> (ResponseWriter \<times> job option) \<times> Service" where
  "UploadFromRequest m s request writer = respond (doUploadFromRequest m s request) writer"

definition doReceiveFromPeer :: "Service \<Rightarrow> Request \<Rightarrow> doResult" where
  "doReceiveFromPeer s request =
     (let filePath' = Get_query request ''file-path'' in
      if filePath' = [] then failWith (Errorf ''no filePath for file requesting'') s else
      let uuid' = Get_query request ''uuid'' in
      if uuid' = [] then failWith (Errorf ''no uuid for file requesting'') s else
      let diskUUID' = Get_query request ''disk-uuid'';
          expectedChecksum' = Get_query request ''expected-checksum'';
          fileType0 = Get_query request ''file-type'';
          fileType = (if fileType0 = SyncingFileTypeEmpty then SyncingFileTypeRaw else fileType0) in
      if fileType \<noteq> SyncingFileTypeRaw \<and> fileType \<noteq> SyncingFileTypeQcow2 then
        failWith (Errorf []) s else
      case ParseInt (Get_query request ''size'') of
        Inl err \<Rightarrow> failWith err s
      | Inr size' \<Rightarrow>
          if sint size' smod DefaultSectorSize \<noteq> 0 then
            failWith (sizeError ''uploaded file'' size') s
          else
            (case ParseInt (Get_query request ''port'') of
               Inl err \<Rightarrow> failWith err s
             | Inr port \<Rightarrow>
                 let dataEngine = Get_query request DataSourceTypeParameterDataEngine in
                 (case checkAndInitSyncFile s filePath' uuid' diskUUID' expectedChecksum' size' of
                    (Inl err, s') \<Rightarrow> failWith err s'
                  | (Inr sf, s') \<Rightarrow> ((None, Some (ReceiveJob sf port fileType dataEngine)), s'))))"

definition ReceiveFromPeer :: "Service \<Rightarrow> Request \<Rightarrow> ResponseWriter \<Rightarrow> (ResponseWriter \<times> job option) \<times> Service" where
  "ReceiveFromPeer s request writer = respond (doReceiveFromPeer s request) writer"

definition doSendToPeer :: "SyncingFileMethods \<Rightarrow> Service \<Rightarrow> Request \<Rightarrow> doResult" where
  "doSendToPeer m s request =
     (case QueryUnescape (Var request ''id'') of
        Inl err \<Rightarrow> failWith err s
      | Inr filePath' \<Rightarrow>
          if filePath' = [] then failWith (Errorf ''no filePath for file sending'') s else
          let toAddress = Get_query request ''to-address'' in
          if toAddress = [] then failWith (Errorf ''no toAddress for file sending'') s else
          (case filePathMap s filePath' of
             None \<Rightarrow> failWith (Errorf (''can not find sync file '' @ filePath' @ '' for sending'')) s
           | Some sf \<Rightarrow>
               (case objects s sf of
                  None \<Rightarrow>
                    failWith (Errorf (''can not find sync file '' @ filePath' @ '' for sending'')) s
                | Some obj \<Rightarrow> ((mSend m obj toAddress, None), s))))"

definition SendToPeer :: "SyncingFileMethods \<Rightarrow> Service \<Rightarrow> Request \<Rightarrow> ResponseWriter \<Rightarrow> (ResponseWriter \<times> job option) \<times> Service" where
  "SendToPeer m s request writer = respond (doSendToPeer m s request) writer"

subsection \<open>DownloadToDst\<close>

text \<open>
  The environment of a download: \<^verbatim>\<open>os.Stat\<close> (the size it reports) and \<^verbatim>\<open>os.Open\<close>
  (the bytes the opened file yields), the compression done by the gzip writer, and
  whether \<^verbatim>\<open>io.Copy\<close> fails after forwarding some number of source bytes.
\<close>

record DownloadEnv =
  osStat :: "string \<Rightarrow> error + int64"
  osOpen :: "string \<Rightarrow> error + string"
  gzipEncode :: "string \<Rightarrow> string"
  copyFault :: "(nat \<times> error) option"

fun Split :: "string \<Rightarrow> char \<Rightarrow> string list" where
  \<comment> \<open>\<^verbatim>\<open>strings.Split\<close> with a separator of one byte\<close>
  "Split [] sep = [[]]"
| "Split (c # cs) sep =
     (if c = sep then [] # Split cs sep
      else (case Split cs sep of [] \<Rightarrow> [[c]] | x # xs \<Rightarrow> (c # x) # xs))"

definition copyTo :: "ResponseWriter \<Rightarrow> string \<Rightarrow> ResponseWriter" where
  \<comment> \<open>writes made by a copy: nothing is written for an empty input\<close>
  "copyTo w bs = (if bs = [] then w else Write_body w bs)"

definition failDownload :: "ResponseWriter \<Rightarrow> error \<Rightarrow> ResponseWriter result" where
  \<comment> \<open>the deferred function of \<^verbatim>\<open>DownloadToDst\<close>, run when \<^verbatim>\<open>err != nil\<close>\<close>
  "failDownload writer err = Returns (http_Error writer (Error err) StatusInternalServerError)"

definition DownloadToDst ::
  "SyncingFileMethods \<Rightarrow> DownloadEnv \<Rightarrow> Service \<Rightarrow> Request \<Rightarrow> ResponseWriter \<Rightarrow> ResponseWriter result" where
  "DownloadToDst m env s request writer =
     (let forV2Creation = Get_query request ''forV2Creation'' in
      case QueryUnescape (Var request ''id'') of
        Inl err \<Rightarrow> failDownload writer err
      | Inr filePath' \<Rightarrow>
          (case (case filePathMap s filePath' of None \<Rightarrow> None | Some sf \<Rightarrow> objects s sf) of
             None \<Rightarrow> failDownload writer (Errorf (''nil sync file '' @ filePath'))
           | Some sf \<Rightarrow>
               if state sf \<noteq> StateReady then
                 failDownload writer
                   (Errorf (''cannot get the reader for a non-ready file, current state ''
                            @ stateString (state sf)))
               else if forV2Creation = ''true'' then
                 (case osStat env (filePath sf) of
                    Inl statErr \<Rightarrow>
                      failDownload writer
                        (Wrapf statErr (''failed to stat the download file '' @ filePath sf))
                  | Inr statSize \<Rightarrow>
                      (case osOpen env (filePath sf) of
                         Inl openErr \<Rightarrow>
                           failDownload writer
                             (Wrapf openErr (''failed to stat the download file '' @ filePath sf))
                       | Inr src \<Rightarrow>
                           let w1 = Header_Set writer ''Content-Length'' (FormatInt (sint statSize));
                               w2 = Header_Set w1 ''Content-Type'' ''application/octet-stream''
                           in if reqMethod request = ''HEAD'' then Returns w2
                              else (case copyFault env of
                                      Some (k, ioErr) \<Rightarrow> failDownload (copyTo w2 (take k src)) ioErr
                                    | None \<Rightarrow> Returns (copyTo w2 src))))
               else
                 let filePathSlices = Split (filePath sf) (CHR ''/'') in
                 if length filePathSlices < 2 then Panics ''index out of range''
                 else
                   let backingImageNameUUID = filePathSlices ! (length filePathSlices - 2) in
                   (case mGetFileReader m sf of
                      Inl sfErr \<Rightarrow> failDownload writer sfErr
                    | Inr src \<Rightarrow>
                        let w1 = Header_Set writer ''Content-Disposition''
                                   (''attachment; filename='' @ hd (Split backingImageNameUUID (CHR ''-''))
                                    @ ''.gz'');
                            w2 = Header_Set w1 ''Content-Type'' ''application/octet-stream''
                        in (case copyFault env of
                              Some (k, ioErr) \<Rightarrow>
                                failDownload (copyTo w2 (gzipEncode env (take k src))) ioErr
                            | None \<Rightarrow> Returns (copyTo w2 (gzipEncode env src))))))"

subsection \<open>Control requests with missing or malformed query parameters\<close>

text \<open>
  The endpoints that take their arguments from the query string, and for each the
  condition under which one of the parameter checks of its handler fires: a required
  parameter is missing (empty), a number does not parse, the size is not a multiple of
  the sector size, or the encryption mode or file type is not one of the accepted values.
\<close>

datatype endpoint =
  EPFetch | EPDownloadFromURL | EPCloneFromBackingImage | EPRestoreFromBackupURL
| EPUploadFromRequest | EPReceiveFromPeer | EPSendToPeer

fun serve ::
  "SyncingFileMethods \<Rightarrow> endpoint \<Rightarrow> Service \<Rightarrow> Request \<Rightarrow> ResponseWriter
     \<Rightarrow> (ResponseWriter \<times> job option) \<times> Service" where
  "serve m EPFetch s request writer = Fetch s request writer"
| "serve m EPDownloadFromURL s request writer = DownloadFromURL s request writer"
| "serve m EPCloneFromBackingImage s request writer = CloneFromBackingImage s request writer"
| "serve m EPRestoreFromBackupURL s request writer = RestoreFromBackupURL s request writer"
| "serve m EPUploadFromRequest s request writer = UploadFromRequest m s request writer"
| "serve m EPReceiveFromPeer s request writer = ReceiveFromPeer s request writer"
| "serve m EPSendToPeer s request writer = SendToPeer m s request writer"

definition validSize :: "string \<Rightarrow> bool" where
  "validSize v =
     (case ParseInt v of Inl _ \<Rightarrow> False | Inr n \<Rightarrow> sint n smod DefaultSectorSize = 0)"

fun malformedQuery :: "endpoint \<Rightarrow> Request \<Rightarrow> bool" where
  "malformedQuery EPFetch r \<longleftrightarrow>
     Get_query r ''src-file-path'' = [] \<or> Get_query r ''dst-file-path'' = []
     \<or> Get_query r ''uuid'' = [] \<or> Get_query r ''disk-uuid'' = []
     \<or> \<not> validSize (Get_query r ''size'')"
| "malformedQuery EPDownloadFromURL r \<longleftrightarrow>
     Get_query r ''file-path'' = [] \<or> Get_query r ''uuid'' = [] \<or> Get_query r ''url'' = []"
| "malformedQuery EPCloneFromBackingImage r \<longleftrightarrow>
     Get_query r ''backing-image'' = [] \<or> Get_query r ''backing-image-uuid'' = []
     \<or> Get_query r ''encryption'' \<notin> {''encrypt'', ''decrypt'', ''ignore''}
     \<or> Get_query r ''file-path'' = [] \<or> Get_query r ''uuid'' = []"
| "malformedQuery EPRestoreFromBackupURL r \<longleftrightarrow>
     Get_query r ''file-path'' = [] \<or> Get_query r ''uuid'' = []
     \<or> Get_query r ''backup-url'' = [] \<or> isl (Atoi (Get_query r ''concurrent-limit''))"
| "malformedQuery EPUploadFromRequest r \<longleftrightarrow>
     Get_query r ''file-path'' = [] \<or> Get_query r ''uuid'' = []
     \<or> \<not> validSize (Get_query r ''size'')"
| "malformedQuery EPReceiveFromPeer r \<longleftrightarrow>
     Get_query r ''file-path'' = [] \<or> Get_query r ''uuid'' = []
     \<or> Get_query r ''file-type'' \<notin> {[], ''raw'', ''qcow2''}
     \<or> \<not> validSize (Get_query r ''size'') \<or> isl (ParseInt (Get_query r ''port''))"
| "malformedQuery EPSendToPeer r \<longleftrightarrow> Get_query r ''to-address'' = []"

section \<open>Concrete inputs\<close>

text \<open>Inputs at which the theorems below are instantiated and evaluated.\<close>

definition request4097 :: Request where
  \<comment> \<open>scenario D of the spec: a registration with \<open>size=4097\<close>\<close>
  "request4097 =
     \<lparr>reqMethod = ''POST'', vars = Map.empty,
      query = map_of [(''src-file-path'', [''/images/src'']),
                      (''dst-file-path'', [''/data/a-uuid1/backing'']),
                      (''file-path'', [''/data/a-uuid1/backing'']),
                      (''uuid'', [''uuid1'']), (''disk-uuid'', [''disk1'']),
                      (''size'', [''4097'']), (''port'', [''30001''])],
      credentialBody = CredentialError EOF,
      multipart = Inr ([(''chunk'', ''data'')], EOF)\<rparr>"

definition requestUnknownId :: Request where
  "requestUnknownId =
     \<lparr>reqMethod = ''DELETE'', vars = map_of [(''id'', ''%2Fdata%2Fnone'')],
      query = map_of [(''to-address'', [''10.0.0.2:8000''])],
      credentialBody = CredentialError EOF,
      multipart = Inl (Errorf ''request Content-Type isn't multipart/form-data'')\<rparr>"

definition requestDownload :: Request where
  "requestDownload =
     \<lparr>reqMethod = ''GET'', vars = map_of [(''id'', ''%2Fa'')],
      query = Map.empty,
      credentialBody = CredentialError EOF,
      multipart = Inl (Errorf ''request Content-Type isn't multipart/form-data'')\<rparr>"

definition stubMethods :: SyncingFileMethods where
  "stubMethods =
     \<lparr>mDelete = (\<lambda>sf. sf), mGetJSON = (\<lambda>sf. Inr (filePath sf)),
      mWaitForStateNonPending = (\<lambda>sf. None),
      mIdleTimeoutCopyToFile = (\<lambda>sf p e. (None, sf\<lparr>state := StateReady\<rparr>)),
      mSend = (\<lambda>sf a. None), mGetFileReader = (\<lambda>sf. Inr [])\<rparr>"

definition stubEnv :: DownloadEnv where
  "stubEnv =
     \<lparr>osStat = (\<lambda>p. Inr 0), osOpen = (\<lambda>p. Inr []), gzipEncode = (\<lambda>bs. bs),
      copyFault = None\<rparr>"

definition emptyFile :: File where
  "emptyFile = \<lparr>contents = [], offset = 0, faults = []\<rparr>"

definition body0 :: "srcEvent list" where
  \<comment> \<open>a block of four zero bytes, two non-zero bytes, then the end of the stream\<close>
  "body0 = [Read (replicate 4 (CHR 0x00)) None, Read ''ab'' None, Read [] (Some EOF)]"

definition envOK :: DownloadSource where
  "envOK =
     \<lparr>newRequestErr = None, doErr = None, respStatusCode = 200, respStatus = ''200 OK'',
      respBody = body0, createErr = None, fileFaults = []\<rparr>"

definition envReset :: DownloadSource where
  \<comment> \<open>the connection is reset after six bytes have arrived\<close>
  "envReset =
     \<lparr>newRequestErr = None, doErr = None, respStatusCode = 200, respStatus = ''200 OK'',
      respBody = [Read ''abcd'' None, Read ''ef'' (Some (Errorf ''connection reset by peer''))],
      createErr = None, fileFaults = []\<rparr>"

definition oldFiles :: fs where
  "oldFiles = map_of [(''/data/a-uuid1/backing'', ''contents of an earlier download'')]"

definition envBadURL :: DownloadSource where
  "envBadURL = envOK\<lparr>newRequestErr := Some (Errorf ''net/http: invalid method'')\<rparr>"

definition envRefused :: DownloadSource where
  "envRefused = envOK\<lparr>doErr := Some (Errorf ''connection refused'')\<rparr>"

definition envNotFound :: DownloadSource where
  "envNotFound = envOK\<lparr>respStatusCode := 404, respStatus := ''404 Not Found''\<rparr>"

definition envReadOnly :: DownloadSource where
  "envReadOnly = envOK\<lparr>createErr := Some (Errorf ''read-only file system'')\<rparr>"

definition envTruncateFails :: DownloadSource where
  \<comment> \<open>the seek and the write succeed, the truncation fails\<close>
  "envTruncateFails = envOK\<lparr>fileFaults := [None, None, Some (0, Errorf ''input/output error'')]\<rparr>"

definition imageURL :: string where
  "imageURL = ''http://origin/image''"

definition backingPath :: string where
  "backingPath = ''/data/a-uuid1/backing''"

definition svcTaken :: Service where
  \<comment> \<open>the path and the uuid of \<open>request4097\<close> are already registered\<close>
  "svcTaken = snd (checkAndInitSyncFile InitService ''/data/a-uuid1/backing'' ''uuid1'' ''disk1'' [] 4096)"

section \<open>Properties of the registry\<close>

lemma consistent_init: "consistent InitService {}"
  by (simp add: consistent_def InitService_def)

lemma checkAndInitSyncFile_exists:
  "filePathMap s fp \<noteq> None \<or> fileUUIDMap s u \<noteq> None \<Longrightarrow>
   \<exists>e. checkAndInitSyncFile s fp u d c n = (Inl e, s)"
  by (auto simp: checkAndInitSyncFile_def)

lemma checkAndInitSyncFile_allocates:
  "checkAndInitSyncFile s fp u d c n = (Inr sf, s') \<Longrightarrow>
   objects s' sf = Some (NewSyncingFile fp u d c n)"
  by (auto simp: checkAndInitSyncFile_def Let_def split: if_splits)

lemma register_fresh:
  assumes "filePathMap s fp = None" "fileUUIDMap s u = None"
  shows "checkAndInitSyncFile s fp u d c n =
     (Inr (nextRef s),
      s\<lparr>filePathMap := (filePathMap s)(fp \<mapsto> nextRef s),
        fileUUIDMap := (fileUUIDMap s)(u \<mapsto> nextRef s),
        objects := (objects s)(nextRef s \<mapsto> NewSyncingFile fp u d c n),
        nextRef := Suc (nextRef s)\<rparr>)"
  using assms by (simp add: checkAndInitSyncFile_def Let_def)

lemma consistent_register_fresh:
  assumes c: "consistent s live"
    and fp: "filePathMap s fp = None" and u: "fileUUIDMap s u = None"
  shows "consistent
      (s\<lparr>filePathMap := (filePathMap s)(fp \<mapsto> nextRef s),
        fileUUIDMap := (fileUUIDMap s)(u \<mapsto> nextRef s),
        objects := (objects s)(nextRef s \<mapsto> NewSyncingFile fp u d c n),
        nextRef := Suc (nextRef s)\<rparr>) (insert (nextRef s) live)"
    (is "consistent ?s' _")
proof -
  from c have live: "\<And>r. r \<in> live \<Longrightarrow> indexed s r"
    and pm: "\<And>p r. filePathMap s p = Some r \<Longrightarrow> r \<in> live \<and> (\<exists>obj. objects s r = Some obj \<and> filePath obj = p)"
    and um: "\<And>v r. fileUUIDMap s v = Some r \<Longrightarrow> r \<in> live \<and> (\<exists>obj. objects s r = Some obj \<and> uuid obj = v)"
    and fresh: "\<And>r. objects s r \<noteq> None \<Longrightarrow> r < nextRef s"
    by (auto simp: consistent_def)
  have new: "objects s (nextRef s) = None"
    using fresh [of "nextRef s"] by (cases "objects s (nextRef s)") auto
  have notlive: "nextRef s \<notin> live"
    using live [of "nextRef s"] new by (auto simp: indexed_def)
  have 1: "indexed ?s' r" if "r \<in> insert (nextRef s) live" for r
  proof (cases "r = nextRef s")
    case True
    then show ?thesis by (simp add: indexed_def NewSyncingFile_def)
  next
    case False
    with that have "r \<in> live" by simp
    then obtain obj where o: "objects s r = Some obj"
      "filePathMap s (filePath obj) = Some r" "fileUUIDMap s (uuid obj) = Some r"
      using live by (auto simp: indexed_def)
    with fp u have "filePath obj \<noteq> fp" "uuid obj \<noteq> u" by auto
    with o False show ?thesis by (simp add: indexed_def)
  qed
  have 2: "r \<in> insert (nextRef s) live \<and> (\<exists>obj. objects ?s' r = Some obj \<and> filePath obj = p)"
    if "filePathMap ?s' p = Some r" for p r
    using that pm [of p r] new by (auto simp: NewSyncingFile_def split: if_splits)
  have 3: "r \<in> insert (nextRef s) live \<and> (\<exists>obj. objects ?s' r = Some obj \<and> uuid obj = v)"
    if "fileUUIDMap ?s' v = Some r" for v r
    using that um [of v r] new by (auto simp: NewSyncingFile_def split: if_splits)
  have 4: "r < nextRef ?s'" if "objects ?s' r \<noteq> None" for r
    using that fresh [of r] by (auto split: if_splits)
  show ?thesis
    unfolding consistent_def using 1 2 3 4 by blast
qed

lemma consistent_register:
  assumes "consistent s live" and "checkAndInitSyncFile s fp u d c n = (res, s')"
  shows "consistent s' (case res of Inl e \<Rightarrow> live | Inr sf \<Rightarrow> insert sf live)"
proof (cases "filePathMap s fp = None \<and> fileUUIDMap s u = None")
  case True
  with assms(2) register_fresh [of s fp u d c n] consistent_register_fresh [OF assms(1), of fp u d c n]
  show ?thesis by auto
next
  case False
  with checkAndInitSyncFile_exists [of s fp u d c n] assms show ?thesis by auto
qed

lemma consistent_cleanup:
  assumes c: "consistent s live"
  shows "consistent (cleanup sfDelete s fp deleteFile) {r \<in> live. \<not> pathIs s fp r}"
    (is "consistent ?s' ?live'")
proof -
  from c have live: "\<And>r. r \<in> live \<Longrightarrow> indexed s r"
    and pm: "\<And>p r. filePathMap s p = Some r \<Longrightarrow> r \<in> live \<and> (\<exists>obj. objects s r = Some obj \<and> filePath obj = p)"
    and um: "\<And>v r. fileUUIDMap s v = Some r \<Longrightarrow> r \<in> live \<and> (\<exists>obj. objects s r = Some obj \<and> uuid obj = v)"
    and fresh: "\<And>r. objects s r \<noteq> None \<Longrightarrow> r < nextRef s"
    by (auto simp: consistent_def)
  show ?thesis
  proof (cases "filePathMap s fp")
    case None
    then have s': "?s' = s\<lparr>filePathMap := (filePathMap s)(fp := None)\<rparr>"
      by (simp add: cleanup_def)
    have same: "(filePathMap s)(fp := None) = filePathMap s"
      using None by auto
    have nopath: "\<not> pathIs s fp r" if "r \<in> live" for r
      using live [OF that] None by (auto simp: indexed_def)
    then have "?live' = live" by auto
    with c s' same show ?thesis by (simp add: consistent_def indexed_def)
  next
    case (Some sf)
    from pm [OF Some] obtain obj where sfl: "sf \<in> live"
      and obj: "objects s sf = Some obj" and objp: "filePath obj = fp" by auto
    from live [OF sfl] obj have obju: "fileUUIDMap s (uuid obj) = Some sf"
      by (auto simp: indexed_def)
    have maps: "filePathMap ?s' = (filePathMap s)(fp := None)"
      "fileUUIDMap ?s' = (fileUUIDMap s)(uuid obj := None)"
      "nextRef ?s' = nextRef s"
      "\<And>r. r \<noteq> sf \<Longrightarrow> objects ?s' r = objects s r"
      "objects ?s' sf \<noteq> None"
      using Some obj by (auto simp: cleanup_def Let_def)
    have only: "r = sf" if "r \<in> live" "pathIs s fp r" for r
      using live [OF that(1)] that(2) Some by (auto simp: indexed_def)
    have sfp: "pathIs s fp sf" using obj objp by simp
    have live': "?live' = live - {sf}" using only sfp by auto
    have 1: "indexed ?s' r" if "r \<in> ?live'" for r
    proof -
      from that live' have rl: "r \<in> live" and ne: "r \<noteq> sf" by auto
      from live [OF rl] obtain o' where o': "objects s r = Some o'"
        "filePathMap s (filePath o') = Some r" "fileUUIDMap s (uuid o') = Some r"
        by (auto simp: indexed_def)
      from o' ne Some obju have "filePath o' \<noteq> fp" "uuid o' \<noteq> uuid obj" by auto
      with o' ne maps show ?thesis by (simp add: indexed_def)
    qed
    have 2: "r \<in> ?live' \<and> (\<exists>obj. objects ?s' r = Some obj \<and> filePath obj = p)"
      if "filePathMap ?s' p = Some r" for p r
    proof -
      from that maps have pne: "p \<noteq> fp" and pr: "filePathMap s p = Some r"
        by (auto split: if_splits)
      from pm [OF pr] obtain o' where rl: "r \<in> live" and o': "objects s r = Some o'" "filePath o' = p"
        by auto
      from o' pne obj objp have "r \<noteq> sf" by auto
      with rl o' live' maps show ?thesis by auto
    qed
    have 3: "r \<in> ?live' \<and> (\<exists>obj. objects ?s' r = Some obj \<and> uuid obj = v)"
      if "fileUUIDMap ?s' v = Some r" for v r
    proof -
      from that maps have vne: "v \<noteq> uuid obj" and vr: "fileUUIDMap s v = Some r"
        by (auto split: if_splits)
      from um [OF vr] obtain o' where rl: "r \<in> live" and o': "objects s r = Some o'" "uuid o' = v"
        by auto
      from o' vne obj have "r \<noteq> sf" by auto
      with rl o' live' maps show ?thesis by auto
    qed
    have 4: "r < nextRef ?s'" if "objects ?s' r \<noteq> None" for r
      using that fresh [of r] maps obj by (cases "r = sf") auto
    show ?thesis
      unfolding consistent_def using 1 2 3 4 by blast
  qed
qed

lemma consistent_exec:
  "consistent s live \<Longrightarrow> exec sfDelete ops (s, live) = (s', live') \<Longrightarrow> consistent s' live'"
proof (induction ops arbitrary: s live)
  case Nil
  then show ?case by simp
next
  case (Cons a ops)
  show ?case
  proof (cases a)
    case (Register fp u d c n)
    obtain res s1 where r: "checkAndInitSyncFile s fp u d c n = (res, s1)"
      by (cases "checkAndInitSyncFile s fp u d c n")
    from consistent_register [OF Cons.prems(1) r]
    have "consistent s1 (case res of Inl e \<Rightarrow> live | Inr sf \<Rightarrow> insert sf live)" .
    with Cons.IH [of s1] Cons.prems(2) Register r show ?thesis
      by (cases res) auto
  next
    case (Cleanup fp deleteFile)
    with Cons.IH [OF consistent_cleanup [OF Cons.prems(1)]] Cons.prems(2)
    show ?thesis by simp
  qed
qed


lemma exec_ops0_live: "snd (exec id ops0 (InitService, {})) = {1}"
  apply (simp add: ops0_def InitService_def checkAndInitSyncFile_def cleanup_def NewSyncingFile_def Let_def)
  apply auto
  done

lemma exec_ops0_obj: "objects (fst (exec id ops0 (InitService, {}))) 1 = Some (NewSyncingFile ''/b'' ''u2'' ''d'' '''' 0)"
  by (simp add: ops0_def InitService_def checkAndInitSyncFile_def cleanup_def NewSyncingFile_def Let_def)

text \<open>
  Claim C1 (registry index consistency). After every finite sequence of register
  (\<^verbatim>\<open>checkAndInitSyncFile\<close>) and cleanup (\<^verbatim>\<open>Delete\<close> or \<^verbatim>\<open>Forget\<close>)
  operations on a fresh service, each live Syncing File has exactly one entry in the
  \<open>filePath\<close> index and exactly one entry in the \<open>uuid\<close> index, namely under its
  own path and its own uuid; both entries hold the reference of that one object; and
  every entry of either index refers to a live file.
\<close>

theorem registry_index_consistency:
  assumes "exec sfDelete ops (InitService, {}) = (s, live)"
  shows "(\<forall>r \<in> live. \<exists>obj. objects s r = Some obj
            \<and> {fp. filePathMap s fp = Some r} = {filePath obj}
            \<and> {u. fileUUIDMap s u = Some r} = {uuid obj})
       \<and> ran (filePathMap s) \<subseteq> live \<and> ran (fileUUIDMap s) \<subseteq> live"
proof -
  from consistent_exec [OF consistent_init assms] have c: "consistent s live" .
  then have live: "\<And>r. r \<in> live \<Longrightarrow> indexed s r"
    and pm: "\<And>p r. filePathMap s p = Some r \<Longrightarrow> r \<in> live \<and> (\<exists>obj. objects s r = Some obj \<and> filePath obj = p)"
    and um: "\<And>v r. fileUUIDMap s v = Some r \<Longrightarrow> r \<in> live \<and> (\<exists>obj. objects s r = Some obj \<and> uuid obj = v)"
    by (auto simp: consistent_def)
  have "\<exists>obj. objects s r = Some obj
            \<and> {fp. filePathMap s fp = Some r} = {filePath obj}
            \<and> {u. fileUUIDMap s u = Some r} = {uuid obj}" if "r \<in> live" for r
  proof -
    from live [OF that] obtain obj where o: "objects s r = Some obj"
      "filePathMap s (filePath obj) = Some r" "fileUUIDMap s (uuid obj) = Some r"
      by (auto simp: indexed_def)
    have "{fp. filePathMap s fp = Some r} = {filePath obj}"
      using o pm by fastforce
    moreover have "{u. fileUUIDMap s u = Some r} = {uuid obj}"
      using o um by fastforce
    ultimately show ?thesis using o by simp
  qed
  moreover have "ran (filePathMap s) \<subseteq> live" using pm by (auto simp: ran_def)
  moreover have "ran (fileUUIDMap s) \<subseteq> live" using um by (auto simp: ran_def)
  ultimately show ?thesis by blast
qed

theorem registry_index_consistency_witness:
  "\<exists>s live. exec id ops0 (InitService, {}) = (s, live) \<and> live = {1}
     \<and> {fp. filePathMap s fp = Some 1} = {''/b''}
     \<and> {u. fileUUIDMap s u = Some 1} = {''u2''}"
proof -
  obtain s live where e: "exec id ops0 (InitService, {}) = (s, live)"
    by (cases "exec id ops0 (InitService, {})")
  have l: "live = {1}" using exec_ops0_live e by simp
  have o: "objects s 1 = Some (NewSyncingFile ''/b'' ''u2'' ''d'' '''' 0)"
    using exec_ops0_obj e by simp
  from registry_index_consistency [OF e] l
  obtain obj where obj: "objects s 1 = Some obj"
    and p: "{fp. filePathMap s fp = Some 1} = {filePath obj}"
    and u: "{u. fileUUIDMap s u = Some 1} = {uuid obj}"
    by blast
  from o obj have "obj = NewSyncingFile ''/b'' ''u2'' ''d'' '''' 0" by simp
  then have "filePath obj = ''/b''" "uuid obj = ''u2''"
    by (simp_all add: NewSyncingFile_def)
  with p u have "{fp. filePathMap s fp = Some 1} = {''/b''}" "{u. fileUUIDMap s u = Some 1} = {''u2''}"
    by simp_all
  with e l show ?thesis by blast
qed

text \<open>
  Claim C2 (register conflict). Whenever a Syncing File with the same \<open>filePath\<close> is
  registered, or one with the same \<open>uuid\<close> is registered (under whatever path),
  \<^verbatim>\<open>checkAndInitSyncFile\<close> returns the "already exists" error of the check that
  fired, and the service is left exactly as it was: no object is allocated and neither
  index map changes.
\<close>

theorem checkAndInitSyncFile_conflict:
  assumes "filePathMap s fp \<noteq> None \<or> fileUUIDMap s u \<noteq> None"
  shows "checkAndInitSyncFile s fp u d c n =
           (Inl (if filePathMap s fp \<noteq> None
                 then Errorf (''file '' @ fp @ '' already exists'')
                 else Errorf (''file '' @ fp @ '' with uuid '' @ u @ '' already exists'')), s)"
  using assms by (auto simp: checkAndInitSyncFile_def)

theorem checkAndInitSyncFile_conflict_witness:
  "filePathMap svc1 ''/b'' = None \<and> fileUUIDMap svc1 ''u1'' \<noteq> None
   \<and> checkAndInitSyncFile svc1 ''/b'' ''u1'' ''d'' '''' 0 =
       (Inl (Errorf ''file /b with uuid u1 already exists''), svc1)"
proof -
  have a: "filePathMap svc1 ''/b'' = None" and b: "fileUUIDMap svc1 ''u1'' \<noteq> None"
    by (simp_all add: svc1_def checkAndInitSyncFile_def InitService_def Let_def)
  from b have "filePathMap svc1 ''/b'' \<noteq> None \<or> fileUUIDMap svc1 ''u1'' \<noteq> None" by simp
  from checkAndInitSyncFile_conflict [OF this, of "''d''" "''''" 0] a b
  show ?thesis by simp
qed

section \<open>Properties of the HTTP control surface\<close>

lemma smod_512_iff: "(k::int) smod 512 = 0 \<longleftrightarrow> 512 dvd k"
proof -
  have "k smod 512 = sgn k * (\<bar>k\<bar> mod 512)"
    by (simp add: smod_int_alt_def)
  also have "\<dots> = 0 \<longleftrightarrow> k = 0 \<or> \<bar>k\<bar> mod 512 = 0"
    by (simp add: sgn_if)
  also have "\<dots> \<longleftrightarrow> 512 dvd \<bar>k\<bar>"
    by (auto simp: dvd_eq_mod_eq_0)
  finally show ?thesis by simp
qed

lemma doFetch_unaligned:
  assumes "ParseInt (Get_query request ''size'') = Inr n" and "\<not> 512 dvd sint n"
  shows "doFetch s request =
     ((Some (if Get_query request ''src-file-path'' = []
               then Errorf ''no srcFilePath for existing file fetch''
             else if Get_query request ''dst-file-path'' = []
               then Errorf ''no dstFilePath for existing file fetch''
             else if Get_query request ''uuid'' = []
               then Errorf ''no uuid for existing file fetch''
             else if Get_query request ''disk-uuid'' = []
               then Errorf ''no diskUUID for existing file fetch''
             else sizeError ''file'' n), None), s)"
  using assms
  by (simp add: doFetch_def Let_def failWith_def smod_512_iff DefaultSectorSize_def)

lemma doUploadFromRequest_unaligned:
  assumes "ParseInt (Get_query request ''size'') = Inr n" and "\<not> 512 dvd sint n"
  shows "doUploadFromRequest m s request =
     ((Some (if Get_query request ''file-path'' = []
               then Errorf ''no file-path for uploading file''
             else if Get_query request ''uuid'' = []
               then Errorf ''no uuid for uploading file''
             else sizeError ''uploaded file'' n), None), s)"
  using assms
  by (simp add: doUploadFromRequest_def Let_def failWith_def smod_512_iff DefaultSectorSize_def)

lemma doReceiveFromPeer_unaligned:
  assumes "ParseInt (Get_query request ''size'') = Inr n" and "\<not> 512 dvd sint n"
  shows "doReceiveFromPeer s request =
     ((Some (if Get_query request ''file-path'' = []
               then Errorf ''no filePath for file requesting''
             else if Get_query request ''uuid'' = []
               then Errorf ''no uuid for file requesting''
             else if Get_query request ''file-type'' \<notin> {[], ''raw'', ''qcow2''}
               then Errorf []
             else sizeError ''uploaded file'' n), None), s)"
  using assms
  by (auto simp: doReceiveFromPeer_def Let_def failWith_def smod_512_iff DefaultSectorSize_def
      SyncingFileTypeEmpty_def SyncingFileTypeRaw_def SyncingFileTypeQcow2_def)

text \<open>
  Claim C5 (sector alignment at register time). For each of the three registering
  requests that carry a size (fetch, upload, receive-from-peer): if the \<open>size\<close>
  parameter is a number that is not a multiple of 512, the request fails with the
  error of a parameter check, which is the size error ("should be a multiple of 512
  bytes") when the parameters checked before the size are in order and otherwise the
  error of the first of them that is not. It is never the error of a registration: no
  transfer is started and the service is exactly as it was, so no Syncing File has been
  created, also when the path and the uuid of the request are already registered.
\<close>

theorem unaligned_size_rejected:
  assumes "ParseInt (Get_query request ''size'') = Inr n" and "\<not> 512 dvd sint n"
  shows "doFetch s request =
           ((Some (if Get_query request ''src-file-path'' = []
                     then Errorf ''no srcFilePath for existing file fetch''
                   else if Get_query request ''dst-file-path'' = []
                     then Errorf ''no dstFilePath for existing file fetch''
                   else if Get_query request ''uuid'' = []
                     then Errorf ''no uuid for existing file fetch''
                   else if Get_query request ''disk-uuid'' = []
                     then Errorf ''no diskUUID for existing file fetch''
                   else sizeError ''file'' n), None), s)
       \<and> doUploadFromRequest m s request =
           ((Some (if Get_query request ''file-path'' = []
                     then Errorf ''no file-path for uploading file''
                   else if Get_query request ''uuid'' = []
                     then Errorf ''no uuid for uploading file''
                   else sizeError ''uploaded file'' n), None), s)
       \<and> doReceiveFromPeer s request =
           ((Some (if Get_query request ''file-path'' = []
                     then Errorf ''no filePath for file requesting''
                   else if Get_query request ''uuid'' = []
                     then Errorf ''no uuid for file requesting''
                   else if Get_query request ''file-type'' \<notin> {[], ''raw'', ''qcow2''}
                     then Errorf []
                   else sizeError ''uploaded file'' n), None), s)"
  using doFetch_unaligned [OF assms] doUploadFromRequest_unaligned [OF assms]
    doReceiveFromPeer_unaligned [OF assms]
  by simp

lemma size4097: "ParseInt (Get_query request4097 ''size'') = Inr 4097"
  by (simp add: request4097_def Get_query_def ParseInt_def parseDecimal64_def ParseUint_def
      isDigit_def digitVal_def)

lemma n4097: "\<not> 512 dvd sint (4097 :: int64)"
  by simp

lemma request4097_params:
  "Get_query request4097 ''src-file-path'' \<noteq> []" "Get_query request4097 ''dst-file-path'' \<noteq> []"
  "Get_query request4097 ''file-path'' \<noteq> []" "Get_query request4097 ''uuid'' \<noteq> []"
  "Get_query request4097 ''disk-uuid'' \<noteq> []" "Get_query request4097 ''file-type'' = []"
  "Get_query request4097 ''dst-file-path'' = ''/data/a-uuid1/backing''"
  by (simp_all add: request4097_def Get_query_def)

lemma sizeError_4097:
  "sizeError ''file'' 4097 =
     Errorf ''the file size 4097 should be a multiple of 512 bytes since Longhorn uses directIO by default''"
  "sizeError ''uploaded file'' 4097 =
     Errorf ''the uploaded file size 4097 should be a multiple of 512 bytes since Longhorn uses directIO by default''"
  by (simp_all add: sizeError_def FormatInt_def FormatNat.simps digitChar_def DefaultSectorSize_def)

lemma svcTaken_path: "filePathMap svcTaken (Get_query request4097 ''dst-file-path'') \<noteq> None"
  by (simp add: request4097_params svcTaken_def checkAndInitSyncFile_def InitService_def Let_def)

theorem unaligned_size_rejected_witness:
  "ParseInt (Get_query request4097 ''size'') = Inr 4097 \<and> \<not> 512 dvd sint (4097 :: int64)
   \<and> filePathMap svcTaken (Get_query request4097 ''dst-file-path'') \<noteq> None
   \<and> doFetch svcTaken request4097 =
       ((Some (Errorf ''the file size 4097 should be a multiple of 512 bytes since Longhorn uses directIO by default''),
         None), svcTaken)
   \<and> doUploadFromRequest stubMethods svcTaken request4097 =
       ((Some (Errorf ''the uploaded file size 4097 should be a multiple of 512 bytes since Longhorn uses directIO by default''),
         None), svcTaken)
   \<and> doReceiveFromPeer svcTaken request4097 =
       ((Some (Errorf ''the uploaded file size 4097 should be a multiple of 512 bytes since Longhorn uses directIO by default''),
         None), svcTaken)"
  using unaligned_size_rejected [OF size4097 n4097, of svcTaken stubMethods] size4097 n4097
    svcTaken_path
  by (simp add: request4097_params sizeError_4097)

lemma Split_nonempty: "Split s sep \<noteq> []"
  by (induction s) (auto split: list.splits)

lemma status_http_Error:
  "status w = None \<Longrightarrow> status (http_Error w msg code) = Some code"
  by (simp add: http_Error_def Write_body_def WriteHeader_def Header_Set_def Header_Del_def Let_def)

lemma body_http_Error:
  "body (http_Error w msg code) = body w @ msg @ [CHR 0x0A]"
  by (simp add: http_Error_def Write_body_def WriteHeader_def Header_Set_def Header_Del_def Let_def
      split: option.splits)

lemma statusSent_http_Error:
  "status w = None \<Longrightarrow> statusSent (http_Error w msg code) = code"
  by (simp add: statusSent_def status_http_Error)

lemma respond_error:
  "status w = None \<Longrightarrow> fst (fst r) = Some err \<Longrightarrow>
   statusSent (fst (fst (respond r w))) = StatusInternalServerError"
  by (cases r) (auto simp: respond_def statusSent_http_Error)

lemma not_validSize:
  "\<not> validSize v \<Longrightarrow> (\<exists>e. ParseInt v = Inl e) \<or> (\<exists>n. ParseInt v = Inr n \<and> sint n smod DefaultSectorSize \<noteq> 0)"
  by (auto simp: validSize_def split: sum.splits)

lemma doFetch_malformed:
  "malformedQuery EPFetch r \<Longrightarrow> \<exists>err. fst (fst (doFetch s r)) = Some err"
  by (auto simp: doFetch_def Let_def failWith_def dest!: not_validSize)

lemma doDownloadFromURL_malformed:
  "malformedQuery EPDownloadFromURL r \<Longrightarrow> \<exists>err. fst (fst (doDownloadFromURL s r)) = Some err"
  by (auto simp: doDownloadFromURL_def Let_def failWith_def)

lemma doCloneFromBackingImage_malformed:
  "malformedQuery EPCloneFromBackingImage r \<Longrightarrow>
   \<exists>err. fst (fst (doCloneFromBackingImage s r)) = Some err"
  by (auto simp: doCloneFromBackingImage_def Let_def failWith_def
      DataSourceTypeCloneParameterBackingImage_def DataSourceTypeCloneParameterBackingImageUUID_def
      DataSourceTypeCloneParameterEncryption_def EncryptionTypeEncrypt_def
      EncryptionTypeDecrypt_def EncryptionTypeIgnore_def)

lemma doRestoreFromBackupURL_malformed:
  "malformedQuery EPRestoreFromBackupURL r \<Longrightarrow>
   \<exists>err. fst (fst (doRestoreFromBackupURL s r)) = Some err"
  by (auto simp: doRestoreFromBackupURL_def Let_def failWith_def
      DataSourceTypeRestoreParameterBackupURL_def isl_def)

lemma doUploadFromRequest_malformed:
  "malformedQuery EPUploadFromRequest r \<Longrightarrow>
   \<exists>err. fst (fst (doUploadFromRequest m s r)) = Some err"
  by (auto simp: doUploadFromRequest_def Let_def failWith_def dest!: not_validSize)

lemma doReceiveFromPeer_malformed:
  "malformedQuery EPReceiveFromPeer r \<Longrightarrow>
   \<exists>err. fst (fst (doReceiveFromPeer s r)) = Some err"
  by (auto simp: doReceiveFromPeer_def Let_def failWith_def isl_def
      SyncingFileTypeEmpty_def SyncingFileTypeRaw_def SyncingFileTypeQcow2_def
      dest!: not_validSize split: sum.splits)

lemma doSendToPeer_malformed:
  "malformedQuery EPSendToPeer r \<Longrightarrow>
   \<exists>err. fst (fst (doSendToPeer m s r)) = Some err"
  by (auto simp: doSendToPeer_def Let_def failWith_def split: sum.splits)

lemma request4097_malformed: "malformedQuery EPUploadFromRequest request4097"
proof -
  have "ParseInt (Get_query request4097 ''size'') = Inr 4097"
    by (simp add: request4097_def Get_query_def ParseInt_def parseDecimal64_def ParseUint_def
        isDigit_def digitVal_def)
  then show ?thesis
    by (simp add: validSize_def DefaultSectorSize_def smod_512_iff)
qed

text \<open>
  Claim C8 (HTTP mapping of invalid-argument) does not hold as stated: the handlers of
  the control endpoints answer every error of their \<open>do\<close>-function with status 500.
  A fetch request with \<open>size=4097\<close> is malformed and is not answered with 400.
\<close>

theorem malformed_query_status_counterexample:
  "malformedQuery EPFetch request4097
   \<and> statusSent (fst (fst (Fetch InitService request4097 newResponseWriter))) \<noteq> StatusBadRequest"
proof -
  have "ParseInt (Get_query request4097 ''size'') = Inr 4097"
    by (simp add: request4097_def Get_query_def ParseInt_def parseDecimal64_def ParseUint_def
        isDigit_def digitVal_def)
  then have m: "malformedQuery EPFetch request4097"
    by (simp add: validSize_def DefaultSectorSize_def smod_512_iff)
  from doFetch_malformed [OF m, of InitService] obtain err
    where "fst (fst (doFetch InitService request4097)) = Some err" ..
  then have "statusSent (fst (fst (Fetch InitService request4097 newResponseWriter)))
      = StatusInternalServerError"
    unfolding Fetch_def by (intro respond_error) (simp_all add: newResponseWriter_def)
  with m show ?thesis
    by (simp add: StatusInternalServerError_def StatusBadRequest_def)
qed

text \<open>
  Claim C8, amended. For every control request with a missing or malformed query
  parameter (including a size that is not sector-aligned and a bad encryption mode),
  the endpoint responds with HTTP status 500.
\<close>

theorem malformed_query_status:
  assumes "malformedQuery ep request" and "status writer = None"
  shows "statusSent (fst (fst (serve m ep s request writer))) = StatusInternalServerError"
proof (cases ep)
  case EPFetch
  with assms(1) doFetch_malformed [of request s] obtain err
    where "fst (fst (doFetch s request)) = Some err" by blast
  with EPFetch assms(2) show ?thesis by (simp add: Fetch_def respond_error)
next
  case EPDownloadFromURL
  with assms(1) doDownloadFromURL_malformed [of request s] obtain err
    where "fst (fst (doDownloadFromURL s request)) = Some err" by blast
  with EPDownloadFromURL assms(2) show ?thesis by (simp add: DownloadFromURL_def respond_error)
next
  case EPCloneFromBackingImage
  with assms(1) doCloneFromBackingImage_malformed [of request s] obtain err
    where "fst (fst (doCloneFromBackingImage s request)) = Some err" by blast
  with EPCloneFromBackingImage assms(2) show ?thesis
    by (simp add: CloneFromBackingImage_def respond_error)
next
  case EPRestoreFromBackupURL
  with assms(1) doRestoreFromBackupURL_malformed [of request s] obtain err
    where "fst (fst (doRestoreFromBackupURL s request)) = Some err" by blast
  with EPRestoreFromBackupURL assms(2) show ?thesis
    by (simp add: RestoreFromBackupURL_def respond_error)
next
  case EPUploadFromRequest
  with assms(1) doUploadFromRequest_malformed [of request m s] obtain err
    where "fst (fst (doUploadFromRequest m s request)) = Some err" by blast
  with EPUploadFromRequest assms(2) show ?thesis
    by (simp add: UploadFromRequest_def respond_error)
next
  case EPReceiveFromPeer
  with assms(1) doReceiveFromPeer_malformed [of request s] obtain err
    where "fst (fst (doReceiveFromPeer s request)) = Some err" by blast
  with EPReceiveFromPeer assms(2) show ?thesis
    by (simp add: ReceiveFromPeer_def respond_error)
next
  case EPSendToPeer
  with assms(1) doSendToPeer_malformed [of request m s] obtain err
    where "fst (fst (doSendToPeer m s request)) = Some err" by blast
  with EPSendToPeer assms(2) show ?thesis
    by (simp add: SendToPeer_def respond_error)
qed

theorem malformed_query_status_witness:
  "malformedQuery EPUploadFromRequest request4097 \<and> status newResponseWriter = None
   \<and> statusSent (fst (fst (serve stubMethods EPUploadFromRequest svc1 request4097 newResponseWriter)))
       = 500"
proof -
  have w: "status newResponseWriter = None" by (simp add: newResponseWriter_def)
  from malformed_query_status [OF request4097_malformed w, of stubMethods svc1]
    request4097_malformed w
  show ?thesis by (simp add: StatusInternalServerError_def)
qed

text \<open>
  Claim C6 (non-ready streaming refusal). For a download request of any method (GET
  and HEAD included) whose id names a registered Syncing File that is not in state
  \<open>ready\<close>, \<^verbatim>\<open>DownloadToDst\<close> answers with \<^verbatim>\<open>http.Error\<close>: status 500 on a fresh
  writer, and the only bytes added to the body are the error message, whatever the
  file on disk holds.
\<close>

theorem DownloadToDst_non_ready:
  assumes "QueryUnescape (Var request ''id'') = Inr fp"
    and "filePathMap s fp = Some r" and "objects s r = Some sf"
    and "state sf \<noteq> StateReady"
  shows "DownloadToDst m env s request writer =
           Returns (http_Error writer
             (''cannot get the reader for a non-ready file, current state '' @ stateString (state sf))
             StatusInternalServerError)
       \<and> (status writer = None \<longrightarrow>
            statusSent (http_Error writer
              (''cannot get the reader for a non-ready file, current state '' @ stateString (state sf))
              StatusInternalServerError) = 500)
       \<and> body (http_Error writer
             (''cannot get the reader for a non-ready file, current state '' @ stateString (state sf))
             StatusInternalServerError)
          = body writer @ ''cannot get the reader for a non-ready file, current state ''
              @ stateString (state sf) @ [CHR 0x0A]"
  using assms
  by (simp add: DownloadToDst_def failDownload_def Let_def statusSent_http_Error
      body_http_Error StatusInternalServerError_def)

lemma unescape_a: "QueryUnescape (Var requestDownload ''id'') = Inr ''/a''"
  by code_simp

lemma svc1_a: "filePathMap svc1 ''/a'' = Some 0"
  "objects svc1 0 = Some (NewSyncingFile ''/a'' ''u1'' ''d'' '''' 512)"
  by (simp_all add: svc1_def checkAndInitSyncFile_def InitService_def Let_def)

theorem DownloadToDst_non_ready_witness:
  "QueryUnescape (Var requestDownload ''id'') = Inr ''/a'' \<and> filePathMap svc1 ''/a'' = Some 0
   \<and> objects svc1 0 = Some (NewSyncingFile ''/a'' ''u1'' ''d'' '''' 512)
   \<and> state (NewSyncingFile ''/a'' ''u1'' ''d'' '''' 512) \<noteq> StateReady
   \<and> status newResponseWriter = None
   \<and> (\<exists>w. DownloadToDst stubMethods stubEnv svc1 requestDownload newResponseWriter = Returns w
          \<and> statusSent w = 500
          \<and> body w = ''cannot get the reader for a non-ready file, current state pending''
                @ [CHR 0x0A])"
proof -
  have st: "state (NewSyncingFile ''/a'' ''u1'' ''d'' '''' 512) \<noteq> StateReady"
    and stp: "state (NewSyncingFile ''/a'' ''u1'' ''d'' '''' 512) = StatePending"
    by (simp_all add: NewSyncingFile_def)
  have w: "status newResponseWriter = None" "body newResponseWriter = []"
    by (simp_all add: newResponseWriter_def)
  from DownloadToDst_non_ready [OF unescape_a svc1_a st, of stubMethods stubEnv newResponseWriter]
    w stp unescape_a svc1_a st
  show ?thesis by simp
qed

lemma cleanup_unknown: "filePathMap s fp = None \<Longrightarrow> cleanup d s fp del = s"
proof -
  assume a: "filePathMap s fp = None"
  then have "(filePathMap s)(fp := None) = filePathMap s" by (simp add: fun_upd_idem_iff)
  with a show ?thesis by (simp add: cleanup_def)
qed

lemma unescape_none: "QueryUnescape (Var requestUnknownId ''id'') = Inr ''/data/none''"
  by code_simp

text \<open>
  Claim C9 (HTTP mapping of not-found) does not hold as stated: for an id that names
  no registered file, \<^verbatim>\<open>Delete\<close> writes nothing (status 200) and \<^verbatim>\<open>SendToPeer\<close>
  answers 500; neither answers 404.
\<close>

theorem unknown_id_responses_counterexample:
  "QueryUnescape (Var requestUnknownId ''id'') = Inr ''/data/none''
   \<and> filePathMap svc1 ''/data/none'' = None
   \<and> statusSent (fst (Delete stubMethods svc1 requestUnknownId newResponseWriter)) \<noteq> StatusNotFound
   \<and> statusSent (fst (fst (SendToPeer stubMethods svc1 requestUnknownId newResponseWriter)))
        \<noteq> StatusNotFound"
proof -
  have n: "filePathMap svc1 ''/data/none'' = None"
    by (simp add: svc1_def checkAndInitSyncFile_def InitService_def Let_def)
  have d: "statusSent (fst (Delete stubMethods svc1 requestUnknownId newResponseWriter)) = 200"
    using unescape_none n
    by (simp add: Delete_def doCleanup_def Let_def cleanup_unknown statusSent_def
        newResponseWriter_def StatusOK_def)
  have "\<exists>err. fst (fst (doSendToPeer stubMethods svc1 requestUnknownId)) = Some err"
    using unescape_none n
    by (simp add: doSendToPeer_def Let_def failWith_def requestUnknownId_def Get_query_def)
  then have "statusSent (fst (fst (SendToPeer stubMethods svc1 requestUnknownId newResponseWriter)))
      = 500"
    by (auto simp: SendToPeer_def respond_error newResponseWriter_def StatusInternalServerError_def)
  with d unescape_none n show ?thesis by (simp add: StatusNotFound_def)
qed

text \<open>
  Claim C9, amended. For a request whose id names no registered Syncing File:
  \<^verbatim>\<open>Get\<close> responds with status 404; \<^verbatim>\<open>Delete\<close> and \<^verbatim>\<open>Forget\<close> succeed, writing
  nothing (status 200) and leaving the service unchanged; \<^verbatim>\<open>SendToPeer\<close> responds
  with status 500.
\<close>

theorem unknown_id_responses:
  assumes "QueryUnescape (Var request ''id'') = Inr fp" and "filePathMap s fp = None"
    and "status writer = None"
  shows "statusSent (Get m s request writer) = StatusNotFound
       \<and> Delete m s request writer = (writer, s)
       \<and> Forget m s request writer = (writer, s)
       \<and> statusSent writer = StatusOK
       \<and> statusSent (fst (fst (SendToPeer m s request writer))) = StatusInternalServerError"
proof -
  have 1: "statusSent (Get m s request writer) = StatusNotFound"
    using assms by (simp add: Get_def Let_def statusSent_http_Error)
  have 2: "Delete m s request writer = (writer, s)" "Forget m s request writer = (writer, s)"
    using assms by (simp_all add: Delete_def Forget_def doCleanup_def Let_def cleanup_unknown)
  have 3: "statusSent writer = StatusOK"
    using assms by (simp add: statusSent_def)
  have "\<exists>err. fst (fst (doSendToPeer m s request)) = Some err"
    using assms by (simp add: doSendToPeer_def Let_def failWith_def)
  then have 4: "statusSent (fst (fst (SendToPeer m s request writer))) = StatusInternalServerError"
    using assms(3) by (auto simp: SendToPeer_def respond_error)
  from 1 2 3 4 show ?thesis by blast
qed

theorem unknown_id_responses_witness:
  "QueryUnescape (Var requestUnknownId ''id'') = Inr ''/data/none''
   \<and> filePathMap svc1 ''/data/none'' = None \<and> status newResponseWriter = None
   \<and> statusSent (Get stubMethods svc1 requestUnknownId newResponseWriter) = 404
   \<and> Delete stubMethods svc1 requestUnknownId newResponseWriter = (newResponseWriter, svc1)
   \<and> Forget stubMethods svc1 requestUnknownId newResponseWriter = (newResponseWriter, svc1)
   \<and> statusSent newResponseWriter = 200
   \<and> statusSent (fst (fst (SendToPeer stubMethods svc1 requestUnknownId newResponseWriter))) = 500"
proof -
  have n: "filePathMap svc1 ''/data/none'' = None"
    by (simp add: svc1_def checkAndInitSyncFile_def InitService_def Let_def)
  have w: "status newResponseWriter = None" by (simp add: newResponseWriter_def)
  from unknown_id_responses [OF unescape_none n w, of stubMethods] unescape_none n w
  show ?thesis
    by (simp add: StatusNotFound_def StatusOK_def StatusInternalServerError_def)
qed

section \<open>Properties of the copy pump\<close>


lemma buffersRead_append: "buffersRead (a @ b) = buffersRead a @ buffersRead b"
  by (induction a rule: buffersRead.induct) simp_all

lemma bytesRead_append: "bytesRead (a @ b) = bytesRead a + bytesRead b"
  by (induction a rule: bytesRead.induct) simp_all

lemma nonZeroBytesRead_append: "nonZeroBytesRead (a @ b) = nonZeroBytesRead a + nonZeroBytesRead b"
  by (induction a rule: nonZeroBytesRead.induct) simp_all

lemma bytesWritten_append: "bytesWritten (a @ b) = bytesWritten a + bytesWritten b"
  by (induction a rule: bytesWritten.induct) simp_all

lemma zero_test:
  "length data \<le> DownloadBufferSize \<Longrightarrow> data = take (length data) zeroByteArray \<longleftrightarrow> allZero data"
  by (simp add: zeroByteArray_def allZero_def min_def)

text \<open>What one handled buffer adds to the trace.\<close>

lemma handleBuffer_trace:
  assumes "length data \<le> DownloadBufferSize"
  shows "\<exists>e nw rest. trace (snd (handleBuffer ws writeZero data st)) =
           trace st @ (if \<not> writeZero \<and> allZero data
                       then [DstSeek (word_of_nat (length data)) e]
                       else [DstWrite data nw e]) @ rest
         \<and> (rest = [] \<or> (\<exists>n. rest = [UpdateProgress n]))
         \<and> (\<not> (\<not> writeZero \<and> allZero data) \<longrightarrow> nw = fst (fst (Write ws (dst st) data)))"
proof (cases "\<not> writeZero \<and> allZero data")
  case True
  obtain e d where s: "Seek ws (dst st) (word_of_nat (length data)) = (e, d)"
    by (cases "Seek ws (dst st) (word_of_nat (length data))")
  with True assms show ?thesis
    by (cases e) (auto simp: handleBuffer_def Let_def zero_test account_def)
next
  case False
  obtain nw e d where s: "Write ws (dst st) data = ((nw, e), d)"
    by (cases "Write ws (dst st) data") auto
  with False assms show ?thesis
    by (cases e) (auto simp: handleBuffer_def Let_def zero_test account_def)
qed

text \<open>An induction principle for properties of the trace of the pump.\<close>

lemma copyLoop_preserves:
  assumes skip: "\<And>t data rErr. P t \<Longrightarrow> length data = 0 \<or> length data > DownloadBufferSize
                  \<Longrightarrow> P (t @ [SrcRead data rErr])"
    and hb: "\<And>st data rErr. P (trace st) \<Longrightarrow> 0 < length data
                \<Longrightarrow> length data \<le> DownloadBufferSize
                \<Longrightarrow> P (trace (snd (handleBuffer ws wz data
                                       (st\<lparr>trace := trace st @ [SrcRead data rErr]\<rparr>))))"
  shows "P (trace st) \<Longrightarrow> P (trace (snd (copyLoop ws wz evs st)))"
proof (induction evs arbitrary: st)
  case Nil
  then show ?case by simp
next
  case (Cons ev evs)
  show ?case
  proof (cases ev)
    case CtxDone
    with Cons.prems show ?thesis by simp
  next
    case (Read data rErr)
    define st1 where "st1 = st\<lparr>trace := trace st @ [SrcRead data rErr]\<rparr>"
    show ?thesis
    proof (cases "length data > DownloadBufferSize")
      case True
      with Read skip [OF Cons.prems, of data rErr] show ?thesis by (simp add: Let_def)
    next
      case False
      define r where "r = (if length data > 0 then handleBuffer ws wz data st1 else (None, st1))"
      have p2: "P (trace (snd r))"
      proof (cases "length data > 0")
        case True
        with hb [OF Cons.prems True, of rErr] False show ?thesis by (simp add: r_def st1_def)
      next
        case False
        with skip [OF Cons.prems, of data rErr] show ?thesis by (simp add: r_def st1_def)
      qed
      obtain he st2 where r: "r = (he, st2)" by (cases r)
      with p2 have p2': "P (trace st2)" by simp
      have "snd (copyLoop ws wz (Read data rErr # evs) st) =
              (case he of Some e \<Rightarrow> st2
               | None \<Rightarrow> (case rErr of Some e \<Rightarrow> st2 | None \<Rightarrow> snd (copyLoop ws wz evs st2)))"
        using False r unfolding r_def st1_def
        by (simp add: Let_def split: option.splits)
      with Read p2' Cons.IH [OF p2'] show ?thesis
        by (simp split: option.splits)
    qed
  qed
qed


lemma buffersRead_rest: "rest = [] \<or> (\<exists>n. rest = [UpdateProgress n]) \<Longrightarrow> buffersRead rest = []"
  by auto

lemma bytesRead_rest: "rest = [] \<or> (\<exists>n. rest = [UpdateProgress n]) \<Longrightarrow> bytesRead rest = 0"
  by auto

lemma nonZeroBytesRead_rest:
  "rest = [] \<or> (\<exists>n. rest = [UpdateProgress n]) \<Longrightarrow> nonZeroBytesRead rest = 0"
  by auto

lemma bytesWritten_rest: "rest = [] \<or> (\<exists>n. rest = [UpdateProgress n]) \<Longrightarrow> bytesWritten rest = 0"
  by auto


lemma handleBuffer_small:
  "length data \<le> DownloadBufferSize \<Longrightarrow>
   handleBuffer ws writeZero data st =
     (if \<not> writeZero \<and> allZero data then
        (case Seek ws (dst st) (word_of_nat (length data)) of
           (handleErr, d) \<Rightarrow>
             account (word_of_nat (length data)) handleErr
               (st\<lparr>dst := d, trace := trace st @ [DstSeek (word_of_nat (length data)) handleErr]\<rparr>))
      else
        (case Write ws (dst st) data of
           ((nw, handleErr), d) \<Rightarrow>
             account nw handleErr
               (st\<lparr>dst := d, trace := trace st @ [DstWrite data nw handleErr]\<rparr>)))"
  by (simp add: handleBuffer_def Let_def zero_test)

lemmas pump_eval = IdleTimeoutCopy_def handleBuffer_small account_def osFile_def File_Write_def
  File_Seek_def File_Truncate_def Let_def DownloadBufferSize_def allZero_def pwrite_def

lemma body0_trace:
  "trace (snd (IdleTimeoutCopy osFile False body0 emptyFile)) =
     [SrcRead (replicate 4 (CHR 0x00)) None, DstSeek 4 None, UpdateProgress 4,
      SrcRead ''ab'' None, DstWrite ''ab'' 2 None, UpdateProgress 2,
      SrcRead [] (Some EOF)]"
  by (simp add: pump_eval body0_def emptyFile_def)


lemma body0_counts:
  "bytesRead (trace (snd (IdleTimeoutCopy osFile False body0 emptyFile))) = 6"
  "bytesWritten (trace (snd (IdleTimeoutCopy osFile False body0 emptyFile))) = 2"
  by (simp_all add: body0_trace)



lemma write_bound_copyLoop:
  assumes c: "writerContract ws"
    and inv: "bytesWritten (trace st) \<le> bytesRead (trace st)
              \<and> (\<not> wz \<longrightarrow> bytesWritten (trace st) \<le> nonZeroBytesRead (trace st))"
  shows "bytesWritten (trace (snd (copyLoop ws wz evs st)))
           \<le> bytesRead (trace (snd (copyLoop ws wz evs st)))
       \<and> (\<not> wz \<longrightarrow> bytesWritten (trace (snd (copyLoop ws wz evs st)))
                      \<le> nonZeroBytesRead (trace (snd (copyLoop ws wz evs st))))"
proof (rule copyLoop_preserves [where P = "\<lambda>t. bytesWritten t \<le> bytesRead t
          \<and> (\<not> wz \<longrightarrow> bytesWritten t \<le> nonZeroBytesRead t)"])
  show "bytesWritten (trace st) \<le> bytesRead (trace st)
      \<and> (\<not> wz \<longrightarrow> bytesWritten (trace st) \<le> nonZeroBytesRead (trace st))"
    by (rule inv)
next
  fix t and data :: string and rErr
  assume "bytesWritten t \<le> bytesRead t \<and> (\<not> wz \<longrightarrow> bytesWritten t \<le> nonZeroBytesRead t)"
  then show "bytesWritten (t @ [SrcRead data rErr]) \<le> bytesRead (t @ [SrcRead data rErr])
     \<and> (\<not> wz \<longrightarrow> bytesWritten (t @ [SrcRead data rErr]) \<le> nonZeroBytesRead (t @ [SrcRead data rErr]))"
    by (auto simp: bytesWritten_append bytesRead_append nonZeroBytesRead_append)
next
  fix st :: "'a pump" and data :: string and rErr
  assume i: "bytesWritten (trace st) \<le> bytesRead (trace st)
      \<and> (\<not> wz \<longrightarrow> bytesWritten (trace st) \<le> nonZeroBytesRead (trace st))"
    and pos: "0 < length data" and le: "length data \<le> DownloadBufferSize"
  let ?st1 = "st\<lparr>trace := trace st @ [SrcRead data rErr]\<rparr>"
  let ?t' = "trace (snd (handleBuffer ws wz data ?st1))"
  from handleBuffer_trace [OF le, of ws wz ?st1] obtain e nw rest
    where t: "?t' = trace ?st1 @ (if \<not> wz \<and> allZero data
                         then [DstSeek (word_of_nat (length data)) e]
                         else [DstWrite data nw e]) @ rest"
      and rest: "rest = [] \<or> (\<exists>n. rest = [UpdateProgress n])"
      and nw: "\<not> (\<not> wz \<and> allZero data) \<longrightarrow> nw = fst (fst (Write ws (dst ?st1) data))"
    by auto
  have b: "\<not> (\<not> wz \<and> allZero data) \<longrightarrow> sint nw \<le> int (length data)"
    using c nw by (auto simp: writerContract_def)
  define call where "call = (if \<not> wz \<and> allZero data
       then DstSeek (word_of_nat (length data)) e else DstWrite data nw e)"
  have t2: "?t' = trace st @ [SrcRead data rErr, call] @ rest"
    using t by (simp add: call_def)
  have w: "bytesWritten ?t' = bytesWritten (trace st) + (if \<not> wz \<and> allZero data then 0 else sint nw)"
    unfolding t2 using bytesWritten_rest [OF rest] by (simp add: bytesWritten_append call_def)
  have r: "bytesRead ?t' = bytesRead (trace st) + int (length data)"
    unfolding t2 using bytesRead_rest [OF rest] by (simp add: bytesRead_append call_def)
  have z: "nonZeroBytesRead ?t'
      = nonZeroBytesRead (trace st) + (if allZero data then 0 else int (length data))"
    unfolding t2 using nonZeroBytesRead_rest [OF rest]
    by (simp add: nonZeroBytesRead_append call_def)
  show "bytesWritten ?t' \<le> bytesRead ?t' \<and> (\<not> wz \<longrightarrow> bytesWritten ?t' \<le> nonZeroBytesRead ?t')"
    unfolding w r z using i b by auto
qed

lemma sint_word_of_nat_le: "sint (word_of_nat n :: int64) \<le> int n"
proof -
  have "(- 9223372036854775808 :: int) \<le> uint (word_of_nat n :: int64)"
    using uint_ge_0 [of "word_of_nat n :: int64"] by linarith
  then have "sint (word_of_nat n :: int64) \<le> uint (word_of_nat n :: int64)"
    by (simp add: sint_uint signed_take_bit_int_less_eq_self_iff)
  also have "\<dots> = int (unat (word_of_nat n :: int64))"
    by (rule uint_nat)
  also have "\<dots> \<le> int n"
    by (simp add: unat_of_nat)
  finally show ?thesis .
qed

lemma osFile_contract: "writerContract osFile"
  unfolding writerContract_def osFile_def File_Write_def
  by (auto simp: Let_def split: list.splits option.splits intro: order_trans [OF sint_word_of_nat_le])

text \<open>
  Claim C7 (copy pump write bound). In every execution of \<^verbatim>\<open>IdleTimeoutCopy\<close>, up
  to any point of the execution, on a destination that honours the contract of
  \<^verbatim>\<open>io.Writer\<close> (a \<^verbatim>\<open>Write\<close> reports at most the bytes it was given), the bytes
  written to the destination are at most the bytes read from the source; with
  \<open>writeZero = false\<close> they are at most the bytes read in buffers that are not
  entirely zero.
\<close>

theorem copy_pump_write_bound:
  assumes "writerContract ws"
  shows "bytesWritten (trace (snd (IdleTimeoutCopy ws writeZero src d)))
           \<le> bytesRead (trace (snd (IdleTimeoutCopy ws writeZero src d)))
       \<and> (\<not> writeZero \<longrightarrow>
            bytesWritten (trace (snd (IdleTimeoutCopy ws writeZero src d)))
              \<le> nonZeroBytesRead (trace (snd (IdleTimeoutCopy ws writeZero src d))))"
  unfolding IdleTimeoutCopy_def by (rule write_bound_copyLoop [OF assms]) simp

theorem copy_pump_write_bound_witness:
  "writerContract osFile
   \<and> bytesWritten (trace (snd (IdleTimeoutCopy osFile False body0 emptyFile)))
       \<le> bytesRead (trace (snd (IdleTimeoutCopy osFile False body0 emptyFile)))
   \<and> bytesWritten (trace (snd (IdleTimeoutCopy osFile False body0 emptyFile)))
       \<le> nonZeroBytesRead (trace (snd (IdleTimeoutCopy osFile False body0 emptyFile)))
   \<and> bytesRead (trace (snd (IdleTimeoutCopy osFile False body0 emptyFile))) = 6
   \<and> bytesWritten (trace (snd (IdleTimeoutCopy osFile False body0 emptyFile))) = 2"
  using copy_pump_write_bound [OF osFile_contract, of False body0 emptyFile] osFile_contract
    body0_counts
  by blast

section \<open>Properties of the download handler\<close>

lemma File_Truncate_length:
  "File_Truncate f n = (None, f') \<Longrightarrow> int (length (contents f')) = sint n"
  by (auto simp: File_Truncate_def Let_def split: list.splits option.splits if_splits)

lemma File_Truncate_error_contents:
  "File_Truncate f n = (Some e, f') \<Longrightarrow> contents f' = contents f"
  by (auto simp: File_Truncate_def Let_def split: list.splits option.splits if_splits)

lemma DownloadFromURL_success:
  assumes "HTTPHandler_DownloadFromURL env url path files = (Some (Returns (written, None)), files')"
  shows "newRequestErr env = None \<and> doErr env = None \<and> respStatusCode env = 200
       \<and> createErr env = None
       \<and> (\<exists>st f. IdleTimeoutCopy osFile False (respBody env)
                     \<lparr>contents = [], offset = 0, faults = fileFaults env\<rparr>
                   = (Some (Returns (written, None)), st)
               \<and> File_Truncate (dst st) written = (None, f)
               \<and> files' = files(path \<mapsto> contents f)
               \<and> int (length (contents f)) = sint written)"
  using assms
  by (auto simp: HTTPHandler_DownloadFromURL_def os_Create_def
      split: option.splits if_splits result.splits prod.splits sum.splits
      dest: File_Truncate_length)

lemma DownloadFromURL_errors:
  "(newRequestErr env = Some e \<longrightarrow>
      HTTPHandler_DownloadFromURL env url path files = (Some (Returns (0, Some e)), files))
 \<and> (newRequestErr env = None \<and> doErr env = Some e \<longrightarrow>
      HTTPHandler_DownloadFromURL env url path files = (Some (Returns (0, Some e)), files))
 \<and> (newRequestErr env = None \<and> doErr env = None \<and> respStatusCode env \<noteq> 200 \<longrightarrow>
      HTTPHandler_DownloadFromURL env url path files =
        (Some (Returns (0, Some (Errorf (''expected status code 200 from '' @ url @ '', got ''
                                        @ respStatus env)))), files))
 \<and> (newRequestErr env = None \<and> doErr env = None \<and> respStatusCode env = 200
      \<and> createErr env = Some e \<longrightarrow>
      HTTPHandler_DownloadFromURL env url path files = (Some (Returns (0, Some e)), files))
 \<and> (newRequestErr env = None \<and> doErr env = None \<and> respStatusCode env = 200
      \<and> createErr env = None
      \<and> IdleTimeoutCopy osFile False (respBody env)
            \<lparr>contents = [], offset = 0, faults = fileFaults env\<rparr>
          = (Some (Returns (c, Some e)), st) \<longrightarrow>
      HTTPHandler_DownloadFromURL env url path files =
        (Some (Returns (0, Some e)), files(path \<mapsto> contents (dst st))))
 \<and> (newRequestErr env = None \<and> doErr env = None \<and> respStatusCode env = 200
      \<and> createErr env = None
      \<and> IdleTimeoutCopy osFile False (respBody env)
            \<lparr>contents = [], offset = 0, faults = fileFaults env\<rparr>
          = (Some (Returns (c, None)), st)
      \<and> File_Truncate (dst st) c = (Some e, f) \<longrightarrow>
      HTTPHandler_DownloadFromURL env url path files =
        (Some (Returns (0, Some (Wrapf e ''failed to truncate the file after download''))),
         files(path \<mapsto> contents (dst st))))"
  by (auto simp: HTTPHandler_DownloadFromURL_def os_Create_def
      dest: File_Truncate_error_contents)

lemma sint_small: "n \<le> DownloadBufferSize \<Longrightarrow> sint (word_of_nat n :: int64) = int n"
proof -
  assume "n \<le> DownloadBufferSize"
  then have "int n < 2 ^ 63" by (simp add: DownloadBufferSize_def)
  then show ?thesis
    by (simp add: signed_of_nat signed_take_bit_int_eq_self)
qed

lemma Seek_synced:
  assumes s: "synced st" and le: "length data \<le> DownloadBufferSize" and z: "allZero data"
    and r: "File_Seek (dst st) (word_of_nat (length data)) = (None, f)"
  shows "synced (st\<lparr>dst := f, copied := copied st + word_of_nat (length data),
                   trace := trace st @ [SrcRead data rErr] @ [DstSeek n e] @ [UpdateProgress m]\<rparr>)"
proof -
  from r have f: "f = (dst st)\<lparr>offset := offset (dst st) + length data, faults := tl (faults (dst st))\<rparr>"
    by (auto simp: File_Seek_def Let_def sint_small [OF le] nat_add_distrib
        split: list.splits option.splits if_splits)
  have d: "data = replicate (length data) (CHR 0x00)" using z by (simp add: allZero_def)
  have "replicate (offset (dst st) + length data - length (contents (dst st))) (CHR 0x00)
      = replicate (offset (dst st) - length (contents (dst st))) (CHR 0x00) @ data"
    using s d by (metis (no_types) Nat.add_diff_assoc2 replicate_add synced_def)
  with s le show ?thesis
    by (cases "data = []") (auto simp: synced_def f buffersRead_append)
qed


lemma Write_synced:
  assumes s: "synced st" and pos: "0 < length data" and le: "length data \<le> DownloadBufferSize"
    and r: "File_Write (dst st) data = ((nw, None), f)"
  shows "synced (st\<lparr>dst := f, copied := copied st + nw,
                   trace := trace st @ [SrcRead data rErr] @ [DstWrite data n e] @ [UpdateProgress m]\<rparr>)"
proof -
  from r have f: "f = (dst st)\<lparr>contents := pwrite (contents (dst st)) (offset (dst st)) data,
                              offset := offset (dst st) + length data,
                              faults := tl (faults (dst st))\<rparr>"
    and nw: "nw = word_of_nat (length data)"
    by (auto simp: File_Write_def Let_def split: list.splits option.splits)
  from s have len: "length (contents (dst st)) \<le> offset (dst st)"
    and c: "contents (dst st) @ replicate (offset (dst st) - length (contents (dst st))) (CHR 0x00)
            = concat (buffersRead (trace st))"
    and off: "offset (dst st) = length (concat (buffersRead (trace st)))"
    and cp: "copied st = word_of_nat (offset (dst st))"
    by (auto simp: synced_def)
  from pos have ne: "data \<noteq> []" by auto
  have pw: "pwrite (contents (dst st)) (offset (dst st)) data
            = concat (buffersRead (trace st)) @ data"
    using len c ne by (simp add: pwrite_def)
  have l: "length (pwrite (contents (dst st)) (offset (dst st)) data) = offset (dst st) + length data"
    using pw off by simp
  let ?st' = "st\<lparr>dst := f, copied := copied st + nw,
                   trace := trace st @ [SrcRead data rErr] @ [DstWrite data n e] @ [UpdateProgress m]\<rparr>"
  have b: "concat (buffersRead (trace ?st')) = concat (buffersRead (trace st)) @ data"
    using pos le by (simp add: buffersRead_append)
  have 1: "offset (dst ?st') = length (concat (buffersRead (trace ?st')))"
    unfolding b using off by (simp add: f)
  have 2: "length (contents (dst ?st')) = offset (dst ?st')"
    using l by (simp add: f)
  have 3: "contents (dst ?st') = concat (buffersRead (trace ?st'))"
    unfolding b using pw by (simp add: f)
  have 4: "copied ?st' = word_of_nat (offset (dst ?st'))"
    using cp by (simp add: f nw)
  show ?thesis
    unfolding synced_def using 1 2 3 4 by simp
qed

lemma handleBuffer_synced:
  assumes s: "synced st" and pos: "0 < length data" and le: "length data \<le> DownloadBufferSize"
    and r: "handleBuffer osFile False data (st\<lparr>trace := trace st @ [SrcRead data rErr]\<rparr>)
              = (None, st2)"
  shows "synced st2"
proof (cases "allZero data")
  case True
  obtain e f where sk: "File_Seek (dst st) (word_of_nat (length data)) = (e, f)"
    by (cases "File_Seek (dst st) (word_of_nat (length data))")
  with r True le have e: "e = None"
    and st2: "st2 = st\<lparr>dst := f, copied := copied st + word_of_nat (length data),
                trace := trace st @ [SrcRead data rErr] @ [DstSeek (word_of_nat (length data)) None]
                         @ [UpdateProgress (word_of_nat (length data))]\<rparr>"
    by (auto simp: handleBuffer_def Let_def zero_test osFile_def account_def split: option.splits)
  from Seek_synced [OF s le True sk [unfolded e]] st2 show ?thesis by simp
next
  case False
  obtain nw e f where wr: "File_Write (dst st) data = ((nw, e), f)"
    by (cases "File_Write (dst st) data") auto
  with r False le have e: "e = None"
    and st2: "st2 = st\<lparr>dst := f, copied := copied st + nw,
                trace := trace st @ [SrcRead data rErr] @ [DstWrite data nw None]
                         @ [UpdateProgress nw]\<rparr>"
    by (auto simp: handleBuffer_def Let_def zero_test osFile_def account_def split: option.splits)
  from Write_synced [OF s pos le wr [unfolded e]] st2 show ?thesis by simp
qed

lemma skip_synced:
  "synced st \<Longrightarrow> length data = 0 \<Longrightarrow> synced (st\<lparr>trace := trace st @ [SrcRead data rErr]\<rparr>)"
  by (auto simp: synced_def buffersRead_append)

lemma copyLoop_synced:
  "synced st \<Longrightarrow> copyLoop osFile False evs st = (Some (Returns (c, None)), st')
   \<Longrightarrow> synced st' \<and> c = copied st'"
proof (induction evs arbitrary: st)
  case Nil
  then show ?case by simp
next
  case (Cons ev evs)
  show ?case
  proof (cases ev)
    case CtxDone
    with Cons.prems show ?thesis by simp
  next
    case (Read data rErr)
    let ?st1 = "st\<lparr>trace := trace st @ [SrcRead data rErr]\<rparr>"
    from Cons.prems(2) Read have le: "length data \<le> DownloadBufferSize"
      by (auto simp: Let_def split: if_splits)
    define r where "r = (if length data > 0 then handleBuffer osFile False data ?st1 else (None, ?st1))"
    obtain he st2 where r: "r = (he, st2)" by (cases r)
    from Cons.prems(2) Read le r have he: "he = None"
      by (auto simp: Let_def r_def split: if_splits option.splits)
    have s2: "synced st2"
    proof (cases "length data > 0")
      case True
      with r he have "handleBuffer osFile False data ?st1 = (None, st2)" by (simp add: r_def)
      from handleBuffer_synced [OF Cons.prems(1) True le this] show ?thesis .
    next
      case False
      with r have "st2 = ?st1" by (simp add: r_def)
      with False skip_synced [OF Cons.prems(1)] show ?thesis by simp
    qed
    have step: "copyLoop osFile False (Read data rErr # evs) st =
             (case rErr of Some err \<Rightarrow> (Some (Returns (copied st2, if err \<noteq> EOF then Some err else None)), st2)
              | None \<Rightarrow> copyLoop osFile False evs st2)"
      using le r he unfolding r_def by (simp add: Let_def)
    show ?thesis
    proof (cases rErr)
      case None
      with step Cons.prems(2) Read have "copyLoop osFile False evs st2 = (Some (Returns (c, None)), st')"
        by simp
      from Cons.IH [OF s2 this] show ?thesis .
    next
      case (Some err)
      with step Cons.prems(2) Read s2 show ?thesis by (auto split: if_splits)
    qed
  qed
qed

lemma handleBuffer_buffersRead:
  assumes "length data \<le> DownloadBufferSize"
  shows "buffersRead (trace (snd (handleBuffer ws wz data st))) = buffersRead (trace st)"
proof -
  from handleBuffer_trace [OF assms, of ws wz st] obtain e nw rest
    where t: "trace (snd (handleBuffer ws wz data st)) =
           trace st @ (if \<not> wz \<and> allZero data
                       then [DstSeek (word_of_nat (length data)) e]
                       else [DstWrite data nw e]) @ rest"
      and rest: "rest = [] \<or> (\<exists>n. rest = [UpdateProgress n])"
    by auto
  show ?thesis
    unfolding t using buffersRead_rest [OF rest] by (simp add: buffersRead_append)
qed

lemma copyLoop_stream:
  "copyLoop ws wz evs st = (Some (Returns (c, None)), st')
   \<Longrightarrow> concat (buffersRead (trace st')) = concat (buffersRead (trace st)) @ bodyBytes evs"
proof (induction evs arbitrary: st)
  case Nil
  then show ?case by simp
next
  case (Cons ev evs)
  show ?case
  proof (cases ev)
    case CtxDone
    with Cons.prems show ?thesis by simp
  next
    case (Read data rErr)
    let ?st1 = "st\<lparr>trace := trace st @ [SrcRead data rErr]\<rparr>"
    from Cons.prems Read have le: "length data \<le> DownloadBufferSize"
      by (auto simp: Let_def split: if_splits)
    define r where "r = (if length data > 0 then handleBuffer ws wz data ?st1 else (None, ?st1))"
    obtain he st2 where r: "r = (he, st2)" by (cases r)
    from Cons.prems Read le r have he: "he = None"
      by (auto simp: Let_def r_def split: if_splits option.splits)
    have "buffersRead (trace st2) = buffersRead (trace ?st1)"
      using handleBuffer_buffersRead [OF le, of ws wz ?st1] r
      by (auto simp: r_def split: if_splits)
    then have b: "concat (buffersRead (trace st2)) = concat (buffersRead (trace st)) @ data"
      using le by (simp add: buffersRead_append)
    have step: "copyLoop ws wz (Read data rErr # evs) st =
             (case rErr of Some err \<Rightarrow> (Some (Returns (copied st2, if err \<noteq> EOF then Some err else None)), st2)
              | None \<Rightarrow> copyLoop ws wz evs st2)"
      using le r he unfolding r_def by (simp add: Let_def)
    show ?thesis
    proof (cases rErr)
      case None
      with step Cons.prems Read have "copyLoop ws wz evs st2 = (Some (Returns (c, None)), st')"
        by simp
      from Cons.IH [OF this] b None Read show ?thesis by simp
    next
      case (Some err)
      with step Cons.prems Read b show ?thesis by (auto split: if_splits)
    qed
  qed
qed

lemma sint_word_of_nat: "int n < 2 ^ 63 \<Longrightarrow> sint (word_of_nat n :: int64) = int n"
  by (simp add: signed_of_nat signed_take_bit_int_eq_self)

lemma Truncate_synced:
  assumes s: "synced st" and t: "File_Truncate (dst st) (copied st) = (None, f)"
    and small: "int (length (concat (buffersRead (trace st)))) < 2 ^ 63"
  shows "contents f = concat (buffersRead (trace st))"
proof -
  from s have off: "offset (dst st) = length (concat (buffersRead (trace st)))"
    and len: "length (contents (dst st)) \<le> offset (dst st)"
    and c: "contents (dst st) @ replicate (offset (dst st) - length (contents (dst st))) (CHR 0x00)
            = concat (buffersRead (trace st))"
    and cp: "copied st = word_of_nat (offset (dst st))"
    by (auto simp: synced_def)
  from small off have "sint (copied st) = int (offset (dst st))"
    by (simp add: cp sint_word_of_nat)
  with t have "contents f = take (offset (dst st)) (contents (dst st))
                 @ replicate (offset (dst st) - length (contents (dst st))) (CHR 0x00)"
    by (auto simp: File_Truncate_def Let_def split: list.splits option.splits if_splits)
  with len c show ?thesis by simp
qed

lemma DownloadFromURL_contents:
  assumes r: "HTTPHandler_DownloadFromURL env url path files = (Some (Returns (written, None)), files')"
    and small: "int (length (bodyBytes (respBody env))) < 2 ^ 63"
  shows "files' = files(path \<mapsto> bodyBytes (respBody env))
       \<and> sint written = int (length (bodyBytes (respBody env)))"
proof -
  let ?f0 = "\<lparr>contents = [], offset = 0, faults = fileFaults env\<rparr>"
  let ?st0 = "\<lparr>dst = ?f0, copied = 0, trace = []\<rparr>"
  from DownloadFromURL_success [OF r] obtain st f
    where p: "IdleTimeoutCopy osFile False (respBody env) ?f0 = (Some (Returns (written, None)), st)"
      and t: "File_Truncate (dst st) written = (None, f)"
      and fs: "files' = files(path \<mapsto> contents f)"
      and l: "int (length (contents f)) = sint written"
    by blast
  have s0: "synced ?st0" by (simp add: synced_def)
  from p have loop: "copyLoop osFile False (respBody env) ?st0 = (Some (Returns (written, None)), st)"
    by (simp add: IdleTimeoutCopy_def)
  from copyLoop_synced [OF s0 loop] have s: "synced st" and w: "written = copied st" by auto
  from copyLoop_stream [OF loop] have b: "concat (buffersRead (trace st)) = bodyBytes (respBody env)"
    by simp
  from Truncate_synced [OF s t [unfolded w]] small b have "contents f = bodyBytes (respBody env)"
    by simp
  with fs l show ?thesis by simp
qed

lemma envOK_fields:
  "newRequestErr envOK = None" "doErr envOK = None" "respStatusCode envOK = 200"
  "createErr envOK = None" "respBody envOK = body0" "fileFaults envOK = []"
  "respStatus envOK = ''200 OK''"
  by (simp_all add: envOK_def)

lemma envOK_pump:
  "IdleTimeoutCopy osFile False body0 \<lparr>contents = [], offset = 0, faults = []\<rparr>
   = (Some (Returns (6, None)),
      \<lparr>dst = \<lparr>contents = replicate 4 (CHR 0x00) @ ''ab'', offset = 6, faults = []\<rparr>,
       copied = 6,
       trace = [SrcRead (replicate 4 (CHR 0x00)) None, DstSeek 4 None, UpdateProgress 4,
                SrcRead ''ab'' None, DstWrite ''ab'' 2 None, UpdateProgress 2,
                SrcRead [] (Some EOF)]\<rparr>)"
  by (simp add: pump_eval body0_def)

lemma envReset_fields:
  "newRequestErr envReset = None" "doErr envReset = None" "respStatusCode envReset = 200"
  "createErr envReset = None" "fileFaults envReset = []"
  "respBody envReset = [Read ''abcd'' None, Read ''ef'' (Some (Errorf ''connection reset by peer''))]"
  by (simp_all add: envReset_def)

lemma envTruncateFails_fields:
  "newRequestErr envTruncateFails = None" "doErr envTruncateFails = None"
  "respStatusCode envTruncateFails = 200" "createErr envTruncateFails = None"
  "fileFaults envTruncateFails = [None, None, Some (0, Errorf ''input/output error'')]"
  "respBody envTruncateFails = body0"
  by (simp_all add: envTruncateFails_def envOK_def)

lemma truncateFails_pump:
  "IdleTimeoutCopy osFile False body0
       \<lparr>contents = [], offset = 0, faults = [None, None, Some (0, Errorf ''input/output error'')]\<rparr>
   = (Some (Returns (6, None)),
      \<lparr>dst = \<lparr>contents = replicate 4 (CHR 0x00) @ ''ab'', offset = 6,
               faults = [Some (0, Errorf ''input/output error'')]\<rparr>,
       copied = 6,
       trace = [SrcRead (replicate 4 (CHR 0x00)) None, DstSeek 4 None, UpdateProgress 4,
                SrcRead ''ab'' None, DstWrite ''ab'' 2 None, UpdateProgress 2,
                SrcRead [] (Some EOF)]\<rparr>)"
  by (simp add: pump_eval body0_def)

lemma envTruncateFails_pump:
  "IdleTimeoutCopy osFile False (respBody envTruncateFails)
       \<lparr>contents = [], offset = 0, faults = fileFaults envTruncateFails\<rparr>
   = (Some (Returns (6, None)),
      \<lparr>dst = \<lparr>contents = replicate 4 (CHR 0x00) @ ''ab'', offset = 6,
               faults = [Some (0, Errorf ''input/output error'')]\<rparr>,
       copied = 6,
       trace = [SrcRead (replicate 4 (CHR 0x00)) None, DstSeek 4 None, UpdateProgress 4,
                SrcRead ''ab'' None, DstWrite ''ab'' 2 None, UpdateProgress 2,
                SrcRead [] (Some EOF)]\<rparr>)"
  by (simp only: envTruncateFails_fields truncateFails_pump)

lemma reset_pump:
  "IdleTimeoutCopy osFile False
       [Read ''abcd'' None, Read ''ef'' (Some (Errorf ''connection reset by peer''))]
       \<lparr>contents = [], offset = 0, faults = []\<rparr>
   = (Some (Returns (6, Some (Errorf ''connection reset by peer''))),
      \<lparr>dst = \<lparr>contents = ''abcdef'', offset = 6, faults = []\<rparr>,
       copied = 6,
       trace = [SrcRead ''abcd'' None, DstWrite ''abcd'' 4 None, UpdateProgress 4,
                SrcRead ''ef'' (Some (Errorf ''connection reset by peer'')),
                DstWrite ''ef'' 2 None, UpdateProgress 2]\<rparr>)"
  by (simp add: pump_eval)

lemma envReset_pump:
  "IdleTimeoutCopy osFile False (respBody envReset)
       \<lparr>contents = [], offset = 0, faults = fileFaults envReset\<rparr>
   = (Some (Returns (6, Some (Errorf ''connection reset by peer''))),
      \<lparr>dst = \<lparr>contents = ''abcdef'', offset = 6, faults = []\<rparr>,
       copied = 6,
       trace = [SrcRead ''abcd'' None, DstWrite ''abcd'' 4 None, UpdateProgress 4,
                SrcRead ''ef'' (Some (Errorf ''connection reset by peer'')),
                DstWrite ''ef'' 2 None, UpdateProgress 2]\<rparr>)"
  by (simp only: envReset_fields reset_pump)

lemma envOK_result:
  "fst (HTTPHandler_DownloadFromURL envOK imageURL backingPath oldFiles) = Some (Returns (6, None))"
  by (simp add: HTTPHandler_DownloadFromURL_def os_Create_def envOK_fields envOK_pump
      File_Truncate_def Let_def)

lemma envReset_result:
  "fst (HTTPHandler_DownloadFromURL envReset imageURL backingPath oldFiles)
     = Some (Returns (0, Some (Errorf ''connection reset by peer'')))"
  by (simp add: HTTPHandler_DownloadFromURL_def os_Create_def envReset_fields reset_pump)

lemma envTruncateFails_result:
  "fst (HTTPHandler_DownloadFromURL envTruncateFails imageURL backingPath oldFiles)
     = Some (Returns (0, Some (Wrapf (Errorf ''input/output error'')
                                ''failed to truncate the file after download'')))"
  by (simp add: HTTPHandler_DownloadFromURL_def os_Create_def envTruncateFails_fields
      truncateFails_pump File_Truncate_def)

text \<open>
  Claim C4 (\<^verbatim>\<open>DownloadToFile\<close> postcondition). When \<^verbatim>\<open>HTTPHandler.DownloadFromURL\<close>
  returns without error: the request succeeded with status 200; the destination was
  created empty, whatever was at the path before; the response body went through the
  copy pump in sparse mode; and the file at the path has been truncated to exactly the
  returned count, which is the count of the pump (bytes written plus zero bytes skipped
  by seeking). For a body shorter than \<open>2^63\<close> bytes the file then holds exactly the
  bytes of the body, and the returned count is their number. An error of building or
  performing the request, a status other than 200, an error of creating the file, of
  the copy or of the truncation (this one wrapped) is what the call returns.
\<close>

theorem DownloadFromURL_postcondition:
  "(HTTPHandler_DownloadFromURL env url path files = (Some (Returns (written, None)), files') \<longrightarrow>
      newRequestErr env = None \<and> doErr env = None \<and> respStatusCode env = 200
      \<and> createErr env = None
      \<and> (\<exists>st f. IdleTimeoutCopy osFile False (respBody env)
                     \<lparr>contents = [], offset = 0, faults = fileFaults env\<rparr>
                   = (Some (Returns (written, None)), st)
               \<and> File_Truncate (dst st) written = (None, f)
               \<and> files' = files(path \<mapsto> contents f)
               \<and> int (length (contents f)) = sint written)
      \<and> (int (length (bodyBytes (respBody env))) < 2 ^ 63 \<longrightarrow>
           files' = files(path \<mapsto> bodyBytes (respBody env))
           \<and> sint written = int (length (bodyBytes (respBody env)))))
 \<and> (newRequestErr env = Some e \<longrightarrow>
      HTTPHandler_DownloadFromURL env url path files = (Some (Returns (0, Some e)), files))
 \<and> (newRequestErr env = None \<and> doErr env = Some e \<longrightarrow>
      HTTPHandler_DownloadFromURL env url path files = (Some (Returns (0, Some e)), files))
 \<and> (newRequestErr env = None \<and> doErr env = None \<and> respStatusCode env \<noteq> 200 \<longrightarrow>
      HTTPHandler_DownloadFromURL env url path files =
        (Some (Returns (0, Some (Errorf (''expected status code 200 from '' @ url @ '', got ''
                                        @ respStatus env)))), files))
 \<and> (newRequestErr env = None \<and> doErr env = None \<and> respStatusCode env = 200
      \<and> createErr env = Some e \<longrightarrow>
      HTTPHandler_DownloadFromURL env url path files = (Some (Returns (0, Some e)), files))
 \<and> (newRequestErr env = None \<and> doErr env = None \<and> respStatusCode env = 200
      \<and> createErr env = None
      \<and> IdleTimeoutCopy osFile False (respBody env)
            \<lparr>contents = [], offset = 0, faults = fileFaults env\<rparr>
          = (Some (Returns (c, Some e)), st) \<longrightarrow>
      HTTPHandler_DownloadFromURL env url path files =
        (Some (Returns (0, Some e)), files(path \<mapsto> contents (dst st))))
 \<and> (newRequestErr env = None \<and> doErr env = None \<and> respStatusCode env = 200
      \<and> createErr env = None
      \<and> IdleTimeoutCopy osFile False (respBody env)
            \<lparr>contents = [], offset = 0, faults = fileFaults env\<rparr>
          = (Some (Returns (c, None)), st)
      \<and> File_Truncate (dst st) c = (Some e, f) \<longrightarrow>
      HTTPHandler_DownloadFromURL env url path files =
        (Some (Returns (0, Some (Wrapf e ''failed to truncate the file after download''))),
         files(path \<mapsto> contents (dst st))))"
  using DownloadFromURL_success [of env url path files written files']
    DownloadFromURL_contents [of env url path files written files']
    DownloadFromURL_errors [of env e url path files c st f]
  by blast

theorem DownloadFromURL_postcondition_witness:
  "HTTPHandler_DownloadFromURL envOK imageURL backingPath oldFiles
     = (Some (Returns (6, None)), oldFiles(backingPath \<mapsto> replicate 4 (CHR 0x00) @ ''ab''))
 \<and> HTTPHandler_DownloadFromURL envBadURL imageURL backingPath oldFiles
     = (Some (Returns (0, Some (Errorf ''net/http: invalid method''))), oldFiles)
 \<and> HTTPHandler_DownloadFromURL envRefused imageURL backingPath oldFiles
     = (Some (Returns (0, Some (Errorf ''connection refused''))), oldFiles)
 \<and> HTTPHandler_DownloadFromURL envNotFound imageURL backingPath oldFiles
     = (Some (Returns (0, Some (Errorf (''expected status code 200 from '' @ imageURL
                                         @ '', got 404 Not Found'')))), oldFiles)
 \<and> HTTPHandler_DownloadFromURL envReadOnly imageURL backingPath oldFiles
     = (Some (Returns (0, Some (Errorf ''read-only file system''))), oldFiles)
 \<and> HTTPHandler_DownloadFromURL envReset imageURL backingPath oldFiles
     = (Some (Returns (0, Some (Errorf ''connection reset by peer''))),
        oldFiles(backingPath \<mapsto> ''abcdef''))
 \<and> HTTPHandler_DownloadFromURL envTruncateFails imageURL backingPath oldFiles
     = (Some (Returns (0, Some (Wrapf (Errorf ''input/output error'')
                                   ''failed to truncate the file after download''))),
        oldFiles(backingPath \<mapsto> replicate 4 (CHR 0x00) @ ''ab''))"
proof -
  obtain files' where r: "HTTPHandler_DownloadFromURL envOK imageURL backingPath oldFiles
        = (Some (Returns (6, None)), files')"
    using envOK_result
    by (cases "HTTPHandler_DownloadFromURL envOK imageURL backingPath oldFiles") simp
  have small: "int (length (bodyBytes (respBody envOK))) < 2 ^ 63"
    by (simp add: envOK_fields body0_def)
  from DownloadFromURL_postcondition [where env = envOK and url = imageURL and path = backingPath
      and files = oldFiles and written = 6 and files' = files'] r small
  have "files' = oldFiles(backingPath \<mapsto> bodyBytes (respBody envOK))" by blast
  with r have 1: "HTTPHandler_DownloadFromURL envOK imageURL backingPath oldFiles
     = (Some (Returns (6, None)), oldFiles(backingPath \<mapsto> replicate 4 (CHR 0x00) @ ''ab''))"
    by (simp add: envOK_fields body0_def)
  have "newRequestErr envBadURL = Some (Errorf ''net/http: invalid method'')"
    by (simp add: envBadURL_def)
  with DownloadFromURL_postcondition [where env = envBadURL and url = imageURL
      and path = backingPath and files = oldFiles and e = "Errorf ''net/http: invalid method''"]
  have 2: "HTTPHandler_DownloadFromURL envBadURL imageURL backingPath oldFiles
     = (Some (Returns (0, Some (Errorf ''net/http: invalid method''))), oldFiles)"
    by blast
  have "newRequestErr envRefused = None \<and> doErr envRefused = Some (Errorf ''connection refused'')"
    by (simp add: envRefused_def envOK_def)
  with DownloadFromURL_postcondition [where env = envRefused and url = imageURL
      and path = backingPath and files = oldFiles and e = "Errorf ''connection refused''"]
  have 3: "HTTPHandler_DownloadFromURL envRefused imageURL backingPath oldFiles
     = (Some (Returns (0, Some (Errorf ''connection refused''))), oldFiles)"
    by blast
  have nf: "newRequestErr envNotFound = None \<and> doErr envNotFound = None
      \<and> respStatusCode envNotFound \<noteq> 200"
    and nfs: "respStatus envNotFound = ''404 Not Found''"
    by (simp_all add: envNotFound_def envOK_def)
  from DownloadFromURL_postcondition [where env = envNotFound and url = imageURL
      and path = backingPath and files = oldFiles] nf
  have "HTTPHandler_DownloadFromURL envNotFound imageURL backingPath oldFiles
     = (Some (Returns (0, Some (Errorf (''expected status code 200 from '' @ imageURL @ '', got ''
                                        @ respStatus envNotFound)))), oldFiles)"
    by blast
  then have 4: "HTTPHandler_DownloadFromURL envNotFound imageURL backingPath oldFiles
     = (Some (Returns (0, Some (Errorf (''expected status code 200 from '' @ imageURL
                                         @ '', got 404 Not Found'')))), oldFiles)"
    by (simp add: nfs)
  have "newRequestErr envReadOnly = None \<and> doErr envReadOnly = None
      \<and> respStatusCode envReadOnly = 200
      \<and> createErr envReadOnly = Some (Errorf ''read-only file system'')"
    by (simp add: envReadOnly_def envOK_def)
  with DownloadFromURL_postcondition [where env = envReadOnly and url = imageURL
      and path = backingPath and files = oldFiles and e = "Errorf ''read-only file system''"]
  have 5: "HTTPHandler_DownloadFromURL envReadOnly imageURL backingPath oldFiles
     = (Some (Returns (0, Some (Errorf ''read-only file system''))), oldFiles)"
    by blast
  let ?stReset = "\<lparr>dst = \<lparr>contents = ''abcdef'', offset = 6, faults = []\<rparr>, copied = 6,
       trace = [SrcRead ''abcd'' None, DstWrite ''abcd'' 4 None, UpdateProgress 4,
                SrcRead ''ef'' (Some (Errorf ''connection reset by peer'')),
                DstWrite ''ef'' 2 None, UpdateProgress 2]\<rparr>"
  have "newRequestErr envReset = None \<and> doErr envReset = None \<and> respStatusCode envReset = 200
      \<and> createErr envReset = None"
    by (simp add: envReset_def)
  with DownloadFromURL_postcondition [where env = envReset and url = imageURL
      and path = backingPath and files = oldFiles and e = "Errorf ''connection reset by peer''"
      and c = 6 and st = ?stReset] envReset_pump
  have "HTTPHandler_DownloadFromURL envReset imageURL backingPath oldFiles
     = (Some (Returns (0, Some (Errorf ''connection reset by peer''))),
        oldFiles(backingPath \<mapsto> contents (dst ?stReset)))"
    by blast
  then have 6: "HTTPHandler_DownloadFromURL envReset imageURL backingPath oldFiles
     = (Some (Returns (0, Some (Errorf ''connection reset by peer''))),
        oldFiles(backingPath \<mapsto> ''abcdef''))"
    by simp
  let ?fT = "\<lparr>contents = replicate 4 (CHR 0x00) @ ''ab'', offset = 6,
               faults = [Some (0, Errorf ''input/output error'')]\<rparr>"
  let ?stT = "\<lparr>dst = ?fT, copied = 6,
       trace = [SrcRead (replicate 4 (CHR 0x00)) None, DstSeek 4 None, UpdateProgress 4,
                SrcRead ''ab'' None, DstWrite ''ab'' 2 None, UpdateProgress 2,
                SrcRead [] (Some EOF)]\<rparr>"
  have tf: "newRequestErr envTruncateFails = None \<and> doErr envTruncateFails = None
      \<and> respStatusCode envTruncateFails = 200 \<and> createErr envTruncateFails = None"
    by (simp add: envTruncateFails_def envOK_def)
  have tt: "File_Truncate (dst ?stT) 6 = (Some (Errorf ''input/output error''), ?fT\<lparr>faults := []\<rparr>)"
    by (simp add: File_Truncate_def)
  from DownloadFromURL_postcondition [where env = envTruncateFails and url = imageURL
      and path = backingPath and files = oldFiles and e = "Errorf ''input/output error''"
      and c = 6 and st = ?stT and f = "?fT\<lparr>faults := []\<rparr>"] tf tt envTruncateFails_pump
  have "HTTPHandler_DownloadFromURL envTruncateFails imageURL backingPath oldFiles
     = (Some (Returns (0, Some (Wrapf (Errorf ''input/output error'')
                                   ''failed to truncate the file after download''))),
        oldFiles(backingPath \<mapsto> contents (dst ?stT)))"
    by blast
  then have 7: "HTTPHandler_DownloadFromURL envTruncateFails imageURL backingPath oldFiles
     = (Some (Returns (0, Some (Wrapf (Errorf ''input/output error'')
                                   ''failed to truncate the file after download''))),
        oldFiles(backingPath \<mapsto> replicate 4 (CHR 0x00) @ ''ab''))"
    by simp
  show ?thesis using 1 2 3 4 5 6 7 by blast
qed

text \<open>
  Claim C10. Whenever \<^verbatim>\<open>HTTPHandler.DownloadFromURL\<close> returns a non-nil error, the
  returned count is 0 and no file is removed: every other path is untouched, and once
  the destination has been created it stays on disk with the bytes the pump stored
  before the error, also when the error comes from the copy or from the final
  truncation.
\<close>

theorem DownloadFromURL_error_result:
  assumes "HTTPHandler_DownloadFromURL env url path files = (Some (Returns (written, Some err)), files')"
  shows "written = 0
       \<and> (\<forall>p. p \<noteq> path \<longrightarrow> files' p = files p)
       \<and> (newRequestErr env = None \<and> doErr env = None \<and> respStatusCode env = 200
            \<and> createErr env = None \<longrightarrow>
          files' path = Some (contents (dst (snd (IdleTimeoutCopy osFile False (respBody env)
                                    \<lparr>contents = [], offset = 0, faults = fileFaults env\<rparr>)))))
       \<and> (\<not> (newRequestErr env = None \<and> doErr env = None \<and> respStatusCode env = 200
               \<and> createErr env = None) \<longrightarrow> files' = files)"
  using assms
  by (auto simp: HTTPHandler_DownloadFromURL_def os_Create_def
      split: option.splits if_splits result.splits prod.splits sum.splits
      dest: File_Truncate_error_contents)

theorem DownloadFromURL_error_result_witness:
  "(\<exists>files'. HTTPHandler_DownloadFromURL envReset imageURL backingPath oldFiles
       = (Some (Returns (0, Some (Errorf ''connection reset by peer''))), files')
     \<and> files' backingPath = Some ''abcdef'')
 \<and> (\<exists>files'. HTTPHandler_DownloadFromURL envTruncateFails imageURL backingPath oldFiles
       = (Some (Returns (0, Some (Wrapf (Errorf ''input/output error'')
                                    ''failed to truncate the file after download''))), files')
     \<and> files' backingPath = Some (replicate 4 (CHR 0x00) @ ''ab''))"
proof -
  obtain files1 where r1: "HTTPHandler_DownloadFromURL envReset imageURL backingPath oldFiles
        = (Some (Returns (0, Some (Errorf ''connection reset by peer''))), files1)"
    using envReset_result
    by (cases "HTTPHandler_DownloadFromURL envReset imageURL backingPath oldFiles") simp
  have e1: "newRequestErr envReset = None \<and> doErr envReset = None \<and> respStatusCode envReset = 200
     \<and> createErr envReset = None"
    by (simp add: envReset_def)
  from DownloadFromURL_error_result [OF r1] e1
  have "files1 backingPath =
      Some (contents (dst (snd (IdleTimeoutCopy osFile False (respBody envReset)
                                    \<lparr>contents = [], offset = 0, faults = fileFaults envReset\<rparr>))))"
    by blast
  then have f1: "files1 backingPath = Some ''abcdef''"
    by (simp add: envReset_pump)
  obtain files2 where r2: "HTTPHandler_DownloadFromURL envTruncateFails imageURL backingPath oldFiles
        = (Some (Returns (0, Some (Wrapf (Errorf ''input/output error'')
                                     ''failed to truncate the file after download''))), files2)"
    using envTruncateFails_result
    by (cases "HTTPHandler_DownloadFromURL envTruncateFails imageURL backingPath oldFiles") simp
  have e2: "newRequestErr envTruncateFails = None \<and> doErr envTruncateFails = None
     \<and> respStatusCode envTruncateFails = 200 \<and> createErr envTruncateFails = None"
    by (simp add: envTruncateFails_def envOK_def)
  from DownloadFromURL_error_result [OF r2] e2
  have "files2 backingPath =
      Some (contents (dst (snd (IdleTimeoutCopy osFile False (respBody envTruncateFails)
                               \<lparr>contents = [], offset = 0, faults = fileFaults envTruncateFails\<rparr>))))"
    by blast
  then have f2: "files2 backingPath = Some (replicate 4 (CHR 0x00) @ ''ab'')"
    by (simp add: envTruncateFails_pump)
  from r1 f1 r2 f2 show ?thesis by blast
qed

end
